theory Spec2Isabelle
  imports Complex_Main "HOL-Library.Word" "HOL-Library.Sublist"
begin

section \<open>Python values used by the candidate service\<close>

text \<open>
  A Python \<open>str\<close> is a sequence of Unicode code points and \<open>len\<close> counts code points,
  so a \<open>str\<close> is a list of natural numbers here. \<open>bytes\<close> is a list of 8-bit words.
  String literals of the source are written with \<open>lit\<close>.
\<close>

type_synonym str = "nat list"
type_synonym byte = "8 word"
type_synonym bytes = "byte list"

definition lit :: "string \<Rightarrow> str" where
  "lit s = map of_char s"

text \<open>
  \<open>str.strip()\<close> without argument removes leading and trailing characters for which
  CPython's \<open>Py_UNICODE_ISSPACE\<close> holds.
\<close>

definition isspace :: "nat \<Rightarrow> bool" where
  "isspace c \<longleftrightarrow>
     (0x09 \<le> c \<and> c \<le> 0x0D) \<or> (0x1C \<le> c \<and> c \<le> 0x20) \<or> c = 0x85 \<or> c = 0xA0 \<or>
     c = 0x1680 \<or> (0x2000 \<le> c \<and> c \<le> 0x200A) \<or> c = 0x2028 \<or> c = 0x2029 \<or>
     c = 0x202F \<or> c = 0x205F \<or> c = 0x3000"

definition strip :: "str \<Rightarrow> str" where
  "strip s = rev (dropWhile isspace (rev (dropWhile isspace s)))"

text \<open>\<open>s.split(sep)\<close> for a one-character separator; the result is never empty.\<close>

fun split_on :: "nat \<Rightarrow> str \<Rightarrow> str list" where
  "split_on sep [] = [[]]"
| "split_on sep (c # cs) =
     (if c = sep then [] # split_on sep cs
      else (case split_on sep cs of
              [] \<Rightarrow> [[c]]
            | p # ps \<Rightarrow> (c # p) # ps))"

text \<open>\<open>sub in s\<close> on strings: \<open>sub\<close> occurs in \<open>s\<close> as a contiguous run.\<close>

fun str_contains :: "str \<Rightarrow> str \<Rightarrow> bool" where
  "str_contains sub [] = (sub = [])"
| "str_contains sub (c # cs) = (prefix sub (c # cs) \<or> str_contains sub cs)"

text \<open>
  \<open>bytes.decode("utf-8")\<close> with the default \<open>errors="strict"\<close>: \<open>None\<close> stands for
  \<open>UnicodeDecodeError\<close>. Only well-formed sequences are accepted: no overlong forms, no
  surrogates, nothing above U+10FFFF, no truncated sequence.
\<close>

definition cont :: "nat \<Rightarrow> bool" where
  "cont b \<longleftrightarrow> 0x80 \<le> b \<and> b \<le> 0xBF"

fun utf8 :: "nat list \<Rightarrow> str option" where
  "utf8 [] = Some []"
| "utf8 (b0 # bs) =
     (if b0 < 0x80 then map_option ((#) b0) (utf8 bs)
      else if 0xC2 \<le> b0 \<and> b0 \<le> 0xDF then
        (case bs of
           b1 # r \<Rightarrow>
             if cont b1
             then map_option ((#) ((b0 - 0xC0) * 64 + (b1 - 0x80))) (utf8 r)
             else None
         | _ \<Rightarrow> None)
      else if 0xE0 \<le> b0 \<and> b0 \<le> 0xEF then
        (case bs of
           b1 # b2 # r \<Rightarrow>
             if (if b0 = 0xE0 then 0xA0 else 0x80) \<le> b1 \<and>
                b1 \<le> (if b0 = 0xED then 0x9F else 0xBF) \<and> cont b2
             then map_option
                    ((#) ((b0 - 0xE0) * 4096 + (b1 - 0x80) * 64 + (b2 - 0x80))) (utf8 r)
             else None
         | _ \<Rightarrow> None)
      else if 0xF0 \<le> b0 \<and> b0 \<le> 0xF4 then
        (case bs of
           b1 # b2 # b3 # r \<Rightarrow>
             if (if b0 = 0xF0 then 0x90 else 0x80) \<le> b1 \<and>
                b1 \<le> (if b0 = 0xF4 then 0x8F else 0xBF) \<and> cont b2 \<and> cont b3
             then map_option
                    ((#) ((b0 - 0xF0) * 262144 + (b1 - 0x80) * 4096 +
                          (b2 - 0x80) * 64 + (b3 - 0x80))) (utf8 r)
             else None
         | _ \<Rightarrow> None)
      else None)"

definition decode_utf8 :: "bytes \<Rightarrow> str option" where
  "decode_utf8 file_bytes = utf8 (map unat file_bytes)"

section \<open>The service: \<open>main.py\<close>\<close>

text \<open>
  \<open>HTTPException(status_code, detail)\<close>. Each constructor of \<open>http_detail\<close> is one
  \<open>detail\<close> of the source:
  \<^item> \<open>Filename_is_required\<close>: \<^verbatim>\<open>Filename is required\<close>
  \<^item> \<open>Only_PDF_and_TXT\<close>: \<^verbatim>\<open>Only PDF and TXT files are supported\<close>
  \<^item> \<open>File_too_large file_size MAX_FILE_SIZE\<close>: the f-string
    \<^verbatim>\<open>File too large ({size_mb:.1f}MB). Maximum file size is {max_mb}MB.\<close>
  \<^item> \<open>File_is_empty\<close>: \<^verbatim>\<open>File is empty\<close>
  \<^item> \<open>TXT_must_be_UTF8\<close>: \<^verbatim>\<open>TXT file must be UTF-8 encoded\<close>
  \<^item> \<open>Insufficient_text\<close>: \<^verbatim>\<open>Could not extract sufficient text from file. Please ensure the file contains readable text.\<close>
  \<^item> \<open>Connection_timeout\<close>: \<^verbatim>\<open>Connection timeout. The PDF may be too large or complex. Try a smaller file.\<close>
  \<^item> \<open>Error_processing_PDF error_msg\<close>: the f-string \<^verbatim>\<open>Error processing PDF: {error_msg}\<close>
\<close>

datatype http_detail =
    Filename_is_required
  | Only_PDF_and_TXT
  | File_too_large nat nat
  | File_is_empty
  | TXT_must_be_UTF8
  | Insufficient_text
  | Connection_timeout
  | Error_processing_PDF str

text \<open>
  What a call can raise: an \<open>HTTPException\<close>, or any other \<open>Exception\<close>, of which the
  handler only reads \<open>str(e)\<close>.
\<close>

datatype py_exception =
    HTTPException nat http_detail
  | Exception str

text \<open>
  The text of a \<open>detail\<close>. The two float renderings of the \<open>File too large\<close> message
  (\<open>{size_mb:.1f}\<close> and \<open>{max_mb}\<close>) are parameters.
\<close>

fun detail_text :: "(nat \<Rightarrow> str) \<Rightarrow> (nat \<Rightarrow> str) \<Rightarrow> http_detail \<Rightarrow> str" where
  "detail_text f g Filename_is_required = lit ''Filename is required''"
| "detail_text f g Only_PDF_and_TXT = lit ''Only PDF and TXT files are supported''"
| "detail_text f g (File_too_large file_size max_size) =
     lit ''File too large ('' @ f file_size @ lit ''MB). Maximum file size is '' @
     g max_size @ lit ''MB.''"
| "detail_text f g File_is_empty = lit ''File is empty''"
| "detail_text f g TXT_must_be_UTF8 = lit ''TXT file must be UTF-8 encoded''"
| "detail_text f g Insufficient_text =
     lit ''Could not extract sufficient text from file. '' @
     lit ''Please ensure the file contains readable text.''"
| "detail_text f g Connection_timeout =
     lit ''Connection timeout. The PDF may be too large or complex. Try a smaller file.''"
| "detail_text f g (Error_processing_PDF error_msg) =
     lit ''Error processing PDF: '' @ error_msg"

text \<open>The \<open>UploadFile\<close>: its \<open>filename\<close> (which may be \<open>None\<close>) and what \<open>read()\<close> returns.\<close>

record upload =
  filename :: "str option"
  file_bytes :: bytes

text \<open>
  What \<open>embed_resume\<close> imports and does not define:
  \<open>MAX_FILE_SIZE\<close> of \<open>candidate_service.config\<close> (a byte count),
  \<open>extract_text_from_pdf\<close>, \<open>extract_resume_metadata\<close> and \<open>get_embedding\<close>, each of which
  returns or raises, and two things of the Python runtime: \<open>str.lower\<close> (Unicode case
  mapping) and the elapsed time \<open>int((time.time() - start_time) * 1000)\<close>.
\<close>

record ('m, 'v) services =
  MAX_FILE_SIZE :: nat
  str_lower :: "str \<Rightarrow> str"
  extract_text_from_pdf :: "bytes \<Rightarrow> py_exception + str option"
  extract_resume_metadata :: "str \<Rightarrow> py_exception + 'm"
  get_embedding :: "str \<Rightarrow> py_exception + 'v list"
  processing_time :: int

text \<open>The calls made to the imported functions, in order, with their argument.\<close>

datatype call =
    Extract_text_from_pdf bytes
  | Extract_resume_metadata str
  | Get_embedding str

text \<open>The dictionary returned on success.\<close>

record ('m) response =
  status :: str
  resp_filename :: "str option"
  file_size_bytes :: nat
  text_length :: nat
  embedding_dimension :: nat
  processing_time_ms :: int
  resume_text :: str
  resume_metadata :: 'm
  message :: str

text \<open>Line 46: the part after the last dot of the lower-cased name, or the empty string.\<close>

definition file_ext_of :: "(str \<Rightarrow> str) \<Rightarrow> str \<Rightarrow> str" where
  "file_ext_of lower name =
     (if of_char CHR ''.'' \<in> set name then last (split_on (of_char CHR ''.'') (lower name))
      else [])"

definition allowed_ext :: "str \<Rightarrow> bool" where
  "allowed_ext file_ext \<longleftrightarrow> file_ext \<in> set [lit ''pdf'', lit ''txt'']"

text \<open>
  Lines 67 to 73: the text of the file. The PDF branch calls \<open>extract_text_from_pdf\<close>;
  the other branch decodes, and turns \<open>UnicodeDecodeError\<close> into a 400.
\<close>

definition read_text ::
  "('m, 'v) services \<Rightarrow> str \<Rightarrow> bytes \<Rightarrow> (py_exception + str option) \<times> call list" where
  "read_text sv file_ext bs =
     (if file_ext = lit ''pdf''
      then (extract_text_from_pdf sv bs, [Extract_text_from_pdf bs])
      else (case decode_utf8 bs of
              None \<Rightarrow> (Inl (HTTPException 400 TXT_must_be_UTF8), [])
            | Some t \<Rightarrow> (Inr (Some t), [])))"

text \<open>Lines 84 to 99: attributes, embedding, and the response.\<close>

definition embed_text ::
  "('m, 'v) services \<Rightarrow> upload \<Rightarrow> str \<Rightarrow> (py_exception + 'm response) \<times> call list" where
  "embed_text sv file t =
     (case extract_resume_metadata sv t of
        Inl e \<Rightarrow> (Inl e, [Extract_resume_metadata t])
      | Inr metadata \<Rightarrow>
          (case get_embedding sv t of
             Inl e \<Rightarrow> (Inl e, [Extract_resume_metadata t, Get_embedding t])
           | Inr embedding \<Rightarrow>
               (Inr \<lparr> status = lit ''success'',
                      resp_filename = filename file,
                      file_size_bytes = length (file_bytes file),
                      text_length = length t,
                      embedding_dimension = length embedding,
                      processing_time_ms = processing_time sv,
                      resume_text = t,
                      resume_metadata = metadata,
                      message = lit ''Resume successfully embedded. Ready for matching.'' \<rparr>,
                [Extract_resume_metadata t, Get_embedding t])))"

text \<open>
  Lines 51 to 99: the body of the \<open>try\<close>. At line 75, \<open>not resume_text\<close> holds of
  \<open>None\<close> and of the empty string.
\<close>

definition try_body ::
  "('m, 'v) services \<Rightarrow> upload \<Rightarrow> str \<Rightarrow> (py_exception + 'm response) \<times> call list" where
  "try_body sv file file_ext =
     (let file_size = length (file_bytes file) in
      if file_size > MAX_FILE_SIZE sv
      then (Inl (HTTPException 400 (File_too_large file_size (MAX_FILE_SIZE sv))), [])
      else if file_size = 0
      then (Inl (HTTPException 400 File_is_empty), [])
      else (case read_text sv file_ext (file_bytes file) of
              (Inl e, calls) \<Rightarrow> (Inl e, calls)
            | (Inr None, calls) \<Rightarrow> (Inl (HTTPException 400 Insufficient_text), calls)
            | (Inr (Some t), calls) \<Rightarrow>
                if t = [] \<or> length (strip t) < 50
                then (Inl (HTTPException 400 Insufficient_text), calls)
                else (case embed_text sv file t of
                        (res, calls') \<Rightarrow> (res, calls @ calls'))))"

text \<open>
  Lines 101 to 110: an \<open>HTTPException\<close> is raised again; any other exception becomes
  a 500, with one message when its text mentions a timeout or a connection.
\<close>

definition except_clauses :: "(str \<Rightarrow> str) \<Rightarrow> py_exception \<Rightarrow> py_exception" where
  "except_clauses lower e =
     (case e of
        HTTPException code d \<Rightarrow> HTTPException code d
      | Exception error_msg \<Rightarrow>
          if str_contains (lit ''timeout'') (lower error_msg) \<or>
             str_contains (lit ''connection'') (lower error_msg)
          then HTTPException 500 Connection_timeout
          else HTTPException 500 (Error_processing_PDF error_msg))"

text \<open>Lines 32 to 110: the endpoint. The result is what it returns or raises, and its calls.\<close>

definition embed_resume ::
  "('m, 'v) services \<Rightarrow> upload \<Rightarrow> (py_exception + 'm response) \<times> call list" where
  "embed_resume sv file =
     (case filename file of
        None \<Rightarrow> (Inl (HTTPException 400 Filename_is_required), [])
      | Some name \<Rightarrow>
          if name = [] then (Inl (HTTPException 400 Filename_is_required), [])
          else
            let file_ext = file_ext_of (str_lower sv) name in
            if \<not> allowed_ext file_ext
            then (Inl (HTTPException 400 Only_PDF_and_TXT), [])
            else (case try_body sv file file_ext of
                    (Inl e, calls) \<Rightarrow> (Inl (except_clauses (str_lower sv) e), calls)
                  | (Inr r, calls) \<Rightarrow> (Inr r, calls)))"

text \<open>
  A configuration to run the service on: the documented limit of 10MB, \<open>lower\<close> on
  ASCII letters (where it agrees with \<open>str.lower\<close>), a PDF extractor that finds no
  text, an attribute extractor that returns an empty record, and an embedding of
  1536 zeros.
\<close>

definition ascii_lower :: "str \<Rightarrow> str" where
  "ascii_lower s = map (\<lambda>c. if 65 \<le> c \<and> c \<le> 90 then c + 32 else c) s"

definition stub_services :: "(unit, int) services" where
  "stub_services =
     \<lparr> MAX_FILE_SIZE = 10 * 1024 * 1024,
       str_lower = ascii_lower,
       extract_text_from_pdf = (\<lambda>bs. Inr (Some [])),
       extract_resume_metadata = (\<lambda>t. Inr ()),
       get_embedding = (\<lambda>t. Inr (replicate 1536 0)),
       processing_time = 0 \<rparr>"

section \<open>The ingestion script: \<open>embed_jobs.py\<close>\<close>

text \<open>
  What \<open>json.load\<close> returns: \<open>None\<close>, booleans, integers, floats, strings, lists and
  dictionaries. A float is the real number it denotes (no NaN, no infinity). A job is a
  \<open>dict\<close> from strings to such values.
\<close>

datatype pyval =
    PNone
  | PBool bool
  | PInt int
  | PFloat real
  | PStr str
  | PList "pyval list"
  | PDict "(str \<times> pyval) list"

type_synonym job = "str \<rightharpoonup> pyval"

datatype script_error =
    TypeError
  | ValueError
  | OverflowError
  | KeyError str
  | ProviderError str

text \<open>\<open>d.get(key, default)\<close>.\<close>

definition dict_get :: "job \<Rightarrow> str \<Rightarrow> pyval \<Rightarrow> pyval" where
  "dict_get d key dflt = (case d key of None \<Rightarrow> dflt | Some v \<Rightarrow> v)"

text \<open>\<open>sep.join(parts)\<close> raises \<open>TypeError\<close> when an item is not a \<open>str\<close>.\<close>

fun join :: "str \<Rightarrow> str list \<Rightarrow> str" where
  "join sep [] = []"
| "join sep [x] = x"
| "join sep (x # y # ys) = x @ sep @ join sep (y # ys)"

fun as_strs :: "pyval list \<Rightarrow> str list option" where
  "as_strs [] = Some []"
| "as_strs (PStr s # vs) = map_option ((#) s) (as_strs vs)"
| "as_strs (_ # vs) = None"

text \<open>
  \<open>re.sub(r'<[^>]+>', '', text)\<close>: matches are found from left to right and do not
  overlap. At a \<open><\<close> the pattern matches when the longest run of characters other than
  \<open>>\<close> that follows is not empty and is followed by a \<open>>\<close>; a shorter run is never
  followed by a \<open>>\<close>. \<open>tag_at cs\<close> says so of the text \<open>cs\<close> after the \<open><\<close>.
\<close>

definition LT :: nat where "LT = of_char CHR ''<''"
definition GT :: nat where "GT = of_char CHR ''>''"

definition tag_at :: "str \<Rightarrow> bool" where
  "tag_at cs \<longleftrightarrow> takeWhile (\<lambda>x. x \<noteq> GT) cs \<noteq> [] \<and> dropWhile (\<lambda>x. x \<noteq> GT) cs \<noteq> []"

function remove_tags :: "str \<Rightarrow> str" where
  "remove_tags [] = []"
| "remove_tags (c # cs) =
     (if c = LT \<and> tag_at cs
      then remove_tags (tl (dropWhile (\<lambda>x. x \<noteq> GT) cs))
      else c # remove_tags cs)"
  by pat_completeness auto
termination
proof (relation "measure length")
  fix c :: nat and cs :: str
  have "length (tl (dropWhile (\<lambda>x. x \<noteq> GT) cs)) \<le> length cs"
    by (simp add: le_trans [OF diff_le_self length_dropWhile_le])
  then show "(tl (dropWhile (\<lambda>x. x \<noteq> GT) cs), c # cs) \<in> measure length"
    by simp
qed simp_all

text \<open>The pattern \<open><[^>]+>\<close> matches somewhere in the text.\<close>

fun has_tag :: "str \<Rightarrow> bool" where
  "has_tag [] = False"
| "has_tag (c # cs) = ((c = LT \<and> tag_at cs) \<or> has_tag cs)"

text \<open>Lines 32 to 46.\<close>

definition job_text_fields :: "str list" where
  "job_text_fields =
     [lit ''title'', lit ''company_name'', lit ''job_category'', lit ''requirements'',
      lit ''responsibilities'', lit ''location'']"

definition create_job_text :: "job \<Rightarrow> script_error + str" where
  "create_job_text job =
     (let parts = map (\<lambda>key. dict_get job key (PStr [])) job_text_fields in
      case as_strs parts of
        None \<Rightarrow> Inl TypeError
      | Some strs \<Rightarrow> Inr (strip (remove_tags (join (lit '' '') strs))))"

text \<open>
  What the script takes from outside: the embedding provider behind \<open>get_embedding\<close>
  (lines 23 to 29), the index (its names, its vector count, whether an upsert raises),
  the answer typed at the prompt, and of the Python runtime \<open>str.lower\<close>, the parsing
  of numbers in \<open>int(s)\<close> and \<open>float(s)\<close>, and the rounding of \<open>float(i)\<close>.
\<close>

record 'e ingestion =
  INDEX_NAME :: str
  list_indexes :: "str list"
  total_vector_count :: nat
  answer :: str
  lower_answer :: "str \<Rightarrow> str"
  embeddings_create :: "str \<Rightarrow> script_error + 'e"
  upsert_raises :: "nat \<Rightarrow> script_error option"
  int_of_str :: "str \<Rightarrow> int option"
  float_of_str :: "str \<Rightarrow> real option"
  float_of_int :: "int \<Rightarrow> real option"

text \<open>\<open>bool(v)\<close>, \<open>int(v)\<close> and \<open>float(v)\<close>.\<close>

fun py_bool :: "pyval \<Rightarrow> bool" where
  "py_bool PNone = False"
| "py_bool (PBool b) = b"
| "py_bool (PInt i) = (i \<noteq> 0)"
| "py_bool (PFloat r) = (r \<noteq> 0)"
| "py_bool (PStr s) = (s \<noteq> [])"
| "py_bool (PList vs) = (vs \<noteq> [])"
| "py_bool (PDict kvs) = (kvs \<noteq> [])"

fun py_int :: "'e ingestion \<Rightarrow> pyval \<Rightarrow> script_error + int" where
  "py_int env (PInt i) = Inr i"
| "py_int env (PBool b) = Inr (if b then 1 else 0)"
| "py_int env (PFloat r) = Inr (if 0 \<le> r then \<lfloor>r\<rfloor> else \<lceil>r\<rceil>)"
| "py_int env (PStr s) = (case int_of_str env s of None \<Rightarrow> Inl ValueError | Some i \<Rightarrow> Inr i)"
| "py_int env _ = Inl TypeError"

fun py_float :: "'e ingestion \<Rightarrow> pyval \<Rightarrow> script_error + real" where
  "py_float env (PFloat r) = Inr r"
| "py_float env (PInt i) =
     (case float_of_int env i of None \<Rightarrow> Inl OverflowError | Some r \<Rightarrow> Inr r)"
| "py_float env (PBool b) = Inr (if b then 1 else 0)"
| "py_float env (PStr s) =
     (case float_of_str env s of None \<Rightarrow> Inl ValueError | Some r \<Rightarrow> Inr r)"
| "py_float env _ = Inl TypeError"

text \<open>Lines 112 to 131: the \<open>metadata\<close> dictionary, its items in the order written.\<close>

definition build_metadata :: "'e ingestion \<Rightarrow> job \<Rightarrow> script_error + (str \<times> pyval) list" where
  "build_metadata env job =
     (case py_int env (dict_get job (lit ''yoe_min'') (PInt 0)) of
        Inl e \<Rightarrow> Inl e
      | Inr yoe_min \<Rightarrow>
          (case py_float env (dict_get job (lit ''equity_min'') (PFloat 0)) of
             Inl e \<Rightarrow> Inl e
           | Inr equity_min \<Rightarrow>
               (case py_float env (dict_get job (lit ''equity_max'') (PFloat 0)) of
                  Inl e \<Rightarrow> Inl e
                | Inr equity_max \<Rightarrow>
                    Inr [(lit ''company_name'', dict_get job (lit ''company_name'') (PStr [])),
                         (lit ''location'', dict_get job (lit ''location'') (PStr [])),
                         (lit ''job_category'', dict_get job (lit ''job_category'') (PStr [])),
                         (lit ''employment_type'',
                            dict_get job (lit ''employment_type'') (PStr [])),
                         (lit ''work_location_type'',
                            dict_get job (lit ''work_location_type'') (PStr [])),
                         (lit ''status'', dict_get job (lit ''status'') (PStr (lit ''active''))),
                         (lit ''ideal_companies'',
                            dict_get job (lit ''idealCompanies'') (PList [])),
                         (lit ''h1b_sponsorship'',
                            PBool (py_bool (dict_get job (lit ''h1b_sponsorship'') (PBool False)))),
                         (lit ''yoe_min'', PInt yoe_min),
                         (lit ''equity_min'', PFloat equity_min),
                         (lit ''equity_max'', PFloat equity_max)])))"

text \<open>Lines 134 to 138: one entry of \<open>vectors\<close>.\<close>

record 'e vector =
  vector_id :: pyval
  vector_values :: 'e
  metadata :: "(str \<times> pyval) list"

text \<open>What the script does to the index.\<close>

datatype 'e index_op =
    Create_index str
  | Delete_all
  | Upsert "'e vector list"

definition batch_size :: nat where
  "batch_size = 100"

text \<open>
  Lines 104 to 138: the body of the loop up to \<open>vectors.append\<close>, for one job.
\<close>

definition prepare_vector :: "'e ingestion \<Rightarrow> job \<Rightarrow> script_error + 'e vector" where
  "prepare_vector env job =
     (case create_job_text job of
        Inl e \<Rightarrow> Inl e
      | Inr job_text \<Rightarrow>
          (case embeddings_create env job_text of
             Inl e \<Rightarrow> Inl e
           | Inr embedding \<Rightarrow>
               (case build_metadata env job of
                  Inl e \<Rightarrow> Inl e
                | Inr md \<Rightarrow>
                    (case job (lit ''job_id'') of
                       None \<Rightarrow> Inl (KeyError (lit ''job_id''))
                     | Some job_id \<Rightarrow>
                         Inr \<lparr> vector_id = job_id, vector_values = embedding,
                               metadata = md \<rparr>))))"

text \<open>
  Lines 104 to 150: the loop over the jobs and the final upload. \<open>n\<close> counts the
  upserts made so far, and \<open>upsert_raises env n\<close> is what upsert number \<open>n\<close> raises.
  The result is the exception that ends the script, if any, and the index operations
  made, in order.
\<close>

fun upload_jobs ::
  "'e ingestion \<Rightarrow> job list \<Rightarrow> 'e vector list \<Rightarrow> nat \<Rightarrow> script_error option \<times> 'e index_op list"
  where
  "upload_jobs env [] vectors n =
     (if vectors \<noteq> [] then (upsert_raises env n, [Upsert vectors]) else (None, []))"
| "upload_jobs env (job # jobs) vectors n =
     (case prepare_vector env job of
        Inl e \<Rightarrow> (Some e, [])
      | Inr v \<Rightarrow>
          (let vectors' = vectors @ [v] in
           if length vectors' \<ge> batch_size
           then (case upsert_raises env n of
                   Some e \<Rightarrow> (Some e, [Upsert vectors'])
                 | None \<Rightarrow>
                     (case upload_jobs env jobs [] (Suc n) of
                        (res, ops) \<Rightarrow> (res, Upsert vectors' # ops)))
           else upload_jobs env jobs vectors' n))"

text \<open>Lines 49 to 73, as far as the index is changed.\<close>

definition setup_pinecone_index :: "'e ingestion \<Rightarrow> 'e index_op list" where
  "setup_pinecone_index env =
     (if INDEX_NAME env \<notin> set (list_indexes env) then [Create_index (INDEX_NAME env)] else [])"

text \<open>Lines 76 to 152, given the jobs loaded from \<open>JOBS_FILE\<close>.\<close>

definition embed_jobs :: "'e ingestion \<Rightarrow> job list \<Rightarrow> script_error option \<times> 'e index_op list" where
  "embed_jobs env jobs =
     (let ops = setup_pinecone_index env in
      if total_vector_count env > 0
      then (if lower_answer env (answer env) = lit ''yes''
            then (case upload_jobs env jobs [] 0 of
                    (res, ops') \<Rightarrow> (res, ops @ [Delete_all] @ ops'))
            else (None, ops))
      else (case upload_jobs env jobs [] 0 of (res, ops') \<Rightarrow> (res, ops @ ops')))"

text \<open>
  The invariants of a job's attributes, in the words of the data model: the minimum
  years of experience is an integer that is not negative, and the equity bounds are
  floats with the minimum at most the maximum.
\<close>

definition satisfies_job_invariants :: "(str \<times> pyval) list \<Rightarrow> bool" where
  "satisfies_job_invariants md =
     (case (map_of md (lit ''yoe_min''), map_of md (lit ''equity_min''),
            map_of md (lit ''equity_max'')) of
        (Some (PInt y), Some (PFloat a), Some (PFloat b)) \<Rightarrow> 0 \<le> y \<and> a \<le> b
      | _ \<Rightarrow> False)"

text \<open>
  A configuration to run the script on: an existing empty index, an embedding that is
  always one number, upserts that succeed, and number conversions that are exact.
\<close>

definition stub_ingestion :: "nat ingestion" where
  "stub_ingestion =
     \<lparr> INDEX_NAME = lit ''resume-job-matching'',
       list_indexes = [lit ''resume-job-matching''],
       total_vector_count = 0,
       answer = [],
       lower_answer = ascii_lower,
       embeddings_create = (\<lambda>t. Inr 0),
       upsert_raises = (\<lambda>n. None),
       int_of_str = (\<lambda>s. None),
       float_of_str = (\<lambda>s. None),
       float_of_int = (\<lambda>i. Some (real_of_int i)) \<rparr>"

section \<open>Properties of the service\<close>

subsection \<open>Strings and decoding\<close>

lemma split_on_nonempty: "split_on sep s \<noteq> []"
  by (induction s) (auto split: list.splits)

lemma utf8_ascii: "\<forall>b \<in> set bs. b < 0x80 \<Longrightarrow> utf8 bs = Some bs"
  by (induction bs) auto

lemma decode_utf8_Nil: "decode_utf8 [] = Some []"
  by (simp add: decode_utf8_def)

lemma decode_utf8_replicate_ascii:
  "b < 0x80 \<Longrightarrow> decode_utf8 (replicate n b) = Some (replicate n (unat b))"
proof -
  assume "b < 0x80"
  then have "unat b < 0x80"
    by (simp add: word_less_nat_alt)
  then have "utf8 (replicate n (unat b)) = Some (replicate n (unat b))"
    by (intro utf8_ascii) simp
  then show ?thesis
    by (simp add: decode_utf8_def)
qed

lemma decode_utf8_bad_lead: "0xF4 < b \<Longrightarrow> decode_utf8 (b # bs) = None"
proof -
  assume "0xF4 < b"
  then have "0xF4 < unat b"
    by (simp add: word_less_nat_alt)
  then show ?thesis
    by (simp add: decode_utf8_def)
qed

lemma strip_replicate: "\<not> isspace c \<Longrightarrow> strip (replicate n c) = replicate n c"
  by (simp add: strip_def)

lemma strip_Nil: "strip [] = []"
  by (simp add: strip_def)

lemma ext_empty_name: "\<not> allowed_ext (file_ext_of lower [])"
  by (simp add: allowed_ext_def file_ext_of_def lit_def)

lemma allowed_ext_cases: "allowed_ext ext \<longleftrightarrow> ext = lit ''pdf'' \<or> ext = lit ''txt''"
  by (auto simp: allowed_ext_def)

lemma pdf_not_txt: "lit ''txt'' \<noteq> lit ''pdf''"
  by (simp add: lit_def)

subsection \<open>The stages of \<open>embed_resume\<close>\<close>

lemma embed_resume_no_name:
  "filename file = None \<or> filename file = Some [] \<Longrightarrow>
   embed_resume sv file = (Inl (HTTPException 400 Filename_is_required), [])"
  by (auto simp: embed_resume_def)

lemma embed_resume_unsupported:
  assumes "filename file = Some name" "name \<noteq> []"
    and "\<not> allowed_ext (file_ext_of (str_lower sv) name)"
  shows "embed_resume sv file = (Inl (HTTPException 400 Only_PDF_and_TXT), [])"
  using assms by (simp add: embed_resume_def)

lemma embed_resume_allowed:
  assumes "filename file = Some name"
    and "allowed_ext (file_ext_of (str_lower sv) name)"
  shows "embed_resume sv file =
     (case try_body sv file (file_ext_of (str_lower sv) name) of
        (Inl e, calls) \<Rightarrow> (Inl (except_clauses (str_lower sv) e), calls)
      | (Inr r, calls) \<Rightarrow> (Inr r, calls))"
proof -
  from assms(2) have "name \<noteq> []"
    using ext_empty_name by blast
  with assms show ?thesis
    by (simp add: embed_resume_def)
qed

lemma except_clauses_HTTP:
  "except_clauses lower (HTTPException code d) = HTTPException code d"
  by (simp add: except_clauses_def)

lemma except_clauses_is_HTTP: "\<exists>code d. except_clauses lower e = HTTPException code d"
  by (cases e) (simp_all add: except_clauses_def)

lemma try_body_too_large:
  "MAX_FILE_SIZE sv < length (file_bytes file) \<Longrightarrow>
   try_body sv file ext =
     (Inl (HTTPException 400 (File_too_large (length (file_bytes file)) (MAX_FILE_SIZE sv))), [])"
  by (simp add: try_body_def)

lemma try_body_empty:
  "file_bytes file = [] \<Longrightarrow> try_body sv file ext = (Inl (HTTPException 400 File_is_empty), [])"
  by (simp add: try_body_def)

lemma try_body_read:
  assumes "file_bytes file \<noteq> []" "length (file_bytes file) \<le> MAX_FILE_SIZE sv"
  shows "try_body sv file ext =
     (case read_text sv ext (file_bytes file) of
        (Inl e, calls) \<Rightarrow> (Inl e, calls)
      | (Inr None, calls) \<Rightarrow> (Inl (HTTPException 400 Insufficient_text), calls)
      | (Inr (Some t), calls) \<Rightarrow>
          if t = [] \<or> length (strip t) < 50
          then (Inl (HTTPException 400 Insufficient_text), calls)
          else (case embed_text sv file t of (res, calls') \<Rightarrow> (res, calls @ calls')))"
  using assms by (simp add: try_body_def)

lemma embed_resume_too_large:
  assumes "filename file = Some name"
    and "allowed_ext (file_ext_of (str_lower sv) name)"
    and "MAX_FILE_SIZE sv < length (file_bytes file)"
  shows "embed_resume sv file =
     (Inl (HTTPException 400 (File_too_large (length (file_bytes file)) (MAX_FILE_SIZE sv))), [])"
  by (simp add: embed_resume_allowed [OF assms(1,2)] try_body_too_large [OF assms(3)]
      except_clauses_HTTP)

lemma embed_resume_empty:
  assumes "filename file = Some name"
    and "allowed_ext (file_ext_of (str_lower sv) name)"
    and "file_bytes file = []"
  shows "embed_resume sv file = (Inl (HTTPException 400 File_is_empty), [])"
  by (simp add: embed_resume_allowed [OF assms(1,2)] try_body_empty [OF assms(3)]
      except_clauses_HTTP)

text \<open>A file that passes the checks of its name and size.\<close>

lemma embed_resume_read:
  assumes "filename file = Some name"
    and "allowed_ext (file_ext_of (str_lower sv) name)"
    and "file_bytes file \<noteq> []" and "length (file_bytes file) \<le> MAX_FILE_SIZE sv"
  shows "embed_resume sv file =
     (case read_text sv (file_ext_of (str_lower sv) name) (file_bytes file) of
        (Inl e, calls) \<Rightarrow> (Inl (except_clauses (str_lower sv) e), calls)
      | (Inr None, calls) \<Rightarrow> (Inl (HTTPException 400 Insufficient_text), calls)
      | (Inr (Some t), calls) \<Rightarrow>
          if t = [] \<or> length (strip t) < 50
          then (Inl (HTTPException 400 Insufficient_text), calls)
          else (case embed_text sv file t of
                  (Inl e, calls') \<Rightarrow> (Inl (except_clauses (str_lower sv) e), calls @ calls')
                | (Inr r, calls') \<Rightarrow> (Inr r, calls @ calls')))"
  by (simp add: embed_resume_allowed [OF assms(1,2)] try_body_read [OF assms(3,4)]
      except_clauses_HTTP split: prod.splits sum.splits option.splits)

lemma read_text_calls:
  "read_text sv ext bs = (res, calls) \<Longrightarrow> calls = [] \<or> calls = [Extract_text_from_pdf bs]"
  by (auto simp: read_text_def split: if_splits option.splits)

lemma read_text_txt:
  "ext \<noteq> lit ''pdf'' \<Longrightarrow>
   read_text sv ext bs =
     (case decode_utf8 bs of
        None \<Rightarrow> (Inl (HTTPException 400 TXT_must_be_UTF8), [])
      | Some t \<Rightarrow> (Inr (Some t), []))"
  by (simp add: read_text_def)

lemma embed_text_success:
  "embed_text sv file t = (Inr r, calls) \<Longrightarrow>
   resume_text r = t \<and> text_length r = length t \<and>
   calls = [Extract_resume_metadata t, Get_embedding t] \<and>
   extract_resume_metadata sv t = Inr (resume_metadata r)"
  by (auto simp: embed_text_def split: sum.splits)

lemma embed_text_calls:
  "embed_text sv file t = (res, calls) \<Longrightarrow> Get_embedding u \<in> set calls \<Longrightarrow> u = t"
  by (auto simp: embed_text_def split: sum.splits)

lemma embed_resume_success:
  assumes "embed_resume sv file = (Inr r, calls)"
  shows "\<exists>name pre.
     filename file = Some name \<and> allowed_ext (file_ext_of (str_lower sv) name) \<and>
     file_bytes file \<noteq> [] \<and> length (file_bytes file) \<le> MAX_FILE_SIZE sv \<and>
     read_text sv (file_ext_of (str_lower sv) name) (file_bytes file)
       = (Inr (Some (resume_text r)), pre) \<and>
     50 \<le> length (strip (resume_text r)) \<and>
     text_length r = length (resume_text r) \<and>
     calls = pre @ [Extract_resume_metadata (resume_text r), Get_embedding (resume_text r)]"
proof -
  from assms obtain name where name: "filename file = Some name" "name \<noteq> []"
    by (auto simp: embed_resume_def split: option.splits if_splits)
  from assms name have ok: "allowed_ext (file_ext_of (str_lower sv) name)"
    by (auto simp: embed_resume_def Let_def split: if_splits)
  have large: "length (file_bytes file) \<le> MAX_FILE_SIZE sv"
    using assms embed_resume_too_large [OF name(1) ok] by (cases "MAX_FILE_SIZE sv < length (file_bytes file)") auto
  have nonempty: "file_bytes file \<noteq> []"
    using assms embed_resume_empty [OF name(1) ok] by auto
  note step = embed_resume_read [OF name(1) ok nonempty large]
  obtain res pre where rt:
    "read_text sv (file_ext_of (str_lower sv) name) (file_bytes file) = (res, pre)"
    by (cases "read_text sv (file_ext_of (str_lower sv) name) (file_bytes file)")
  from assms step rt obtain t where t: "res = Inr (Some t)" "\<not> (t = [] \<or> length (strip t) < 50)"
    by (auto split: sum.splits option.splits if_splits)
  obtain res' calls' where et: "embed_text sv file t = (res', calls')"
    by (cases "embed_text sv file t")
  from assms step rt t et have "res' = Inr r" "calls = pre @ calls'"
    by (auto split: sum.splits)
  with et have "embed_text sv file t = (Inr r, calls')"
    by simp
  from embed_text_success [OF this] \<open>calls = pre @ calls'\<close> t rt name ok nonempty large
  show ?thesis
    by auto
qed

lemma embed_resume_embedding_call:
  assumes "Get_embedding t \<in> set (snd (embed_resume sv file))"
  shows "50 \<le> length (strip t)"
proof -
  from assms obtain name where name: "filename file = Some name" "name \<noteq> []"
    by (auto simp: embed_resume_def split: option.splits if_splits)
  from assms name have ok: "allowed_ext (file_ext_of (str_lower sv) name)"
    by (auto simp: embed_resume_def Let_def split: if_splits)
  have large: "length (file_bytes file) \<le> MAX_FILE_SIZE sv"
    using assms embed_resume_too_large [OF name(1) ok] by (cases "MAX_FILE_SIZE sv < length (file_bytes file)") auto
  have nonempty: "file_bytes file \<noteq> []"
    using assms embed_resume_empty [OF name(1) ok] by auto
  note step = embed_resume_read [OF name(1) ok nonempty large]
  obtain res pre where rt:
    "read_text sv (file_ext_of (str_lower sv) name) (file_bytes file) = (res, pre)"
    by (cases "read_text sv (file_ext_of (str_lower sv) name) (file_bytes file)")
  from read_text_calls [OF rt] have pre: "Get_embedding t \<notin> set pre"
    by auto
  from assms step rt pre obtain u where u: "res = Inr (Some u)" "\<not> (u = [] \<or> length (strip u) < 50)"
    by (auto split: sum.splits option.splits if_splits)
  obtain res' calls' where et: "embed_text sv file u = (res', calls')"
    by (cases "embed_text sv file u")
  from assms step rt u et pre have "Get_embedding t \<in> set calls'"
    by (auto split: sum.splits)
  from embed_text_calls [OF et this] u show ?thesis
    by simp
qed

lemma embed_resume_insufficient:
  assumes "filename file = Some name"
    and "allowed_ext (file_ext_of (str_lower sv) name)"
    and "file_bytes file \<noteq> []" and "length (file_bytes file) \<le> MAX_FILE_SIZE sv"
    and "read_text sv (file_ext_of (str_lower sv) name) (file_bytes file) = (Inr txt, calls)"
    and "txt = None \<or> (\<exists>t. txt = Some t \<and> length (strip t) < 50)"
  shows "embed_resume sv file = (Inl (HTTPException 400 Insufficient_text), calls)"
  using assms(5,6) by (auto simp: embed_resume_read [OF assms(1-4)])

lemma embed_resume_bad_encoding:
  assumes "filename file = Some name"
    and "allowed_ext (file_ext_of (str_lower sv) name)"
    and "file_ext_of (str_lower sv) name \<noteq> lit ''pdf''"
    and "length (file_bytes file) \<le> MAX_FILE_SIZE sv"
    and "decode_utf8 (file_bytes file) = None"
  shows "embed_resume sv file = (Inl (HTTPException 400 TXT_must_be_UTF8), [])"
proof -
  from assms(5) have "file_bytes file \<noteq> []"
    by (auto simp: decode_utf8_Nil)
  from embed_resume_read [OF assms(1,2) this assms(4)] assms(3,5) show ?thesis
    by (simp add: read_text_txt except_clauses_HTTP)
qed

subsection \<open>Running the service on the stub configuration\<close>

lemma stub_fields:
  "MAX_FILE_SIZE stub_services = 10485760"
  "str_lower stub_services = ascii_lower"
  "extract_text_from_pdf stub_services bs = Inr (Some [])"
  "extract_resume_metadata stub_services t = Inr ()"
  "get_embedding stub_services t = Inr (replicate 1536 0)"
  "processing_time stub_services = 0"
  by (simp_all add: stub_services_def)

lemma stub_ext:
  "file_ext_of ascii_lower (lit ''resume.exe'') = lit ''exe''"
  "file_ext_of ascii_lower (lit ''resume.pdf'') = lit ''pdf''"
  "file_ext_of ascii_lower (lit ''resume.txt'') = lit ''txt''"
  by (simp_all add: file_ext_of_def ascii_lower_def lit_def)

lemma ext_facts:
  "\<not> allowed_ext (lit ''exe'')" "allowed_ext (lit ''pdf'')" "allowed_ext (lit ''txt'')"
  "lit ''resume.exe'' \<noteq> []" "lit ''resume.pdf'' \<noteq> []" "lit ''resume.txt'' \<noteq> []"
  by (simp_all add: allowed_ext_def lit_def)

text \<open>
  C9. The checks of \<open>embed_resume\<close> come in the order extension, size, emptiness,
  decoding, minimum length.
\<close>

theorem validation_order:
  assumes "filename file = Some name" and "name \<noteq> []"
    and "ext = file_ext_of (str_lower sv) name"
  shows
    "(\<not> allowed_ext ext \<longrightarrow>
        embed_resume sv file = (Inl (HTTPException 400 Only_PDF_and_TXT), [])) \<and>
     (allowed_ext ext \<and> MAX_FILE_SIZE sv < length (file_bytes file) \<longrightarrow>
        embed_resume sv file =
          (Inl (HTTPException 400
                 (File_too_large (length (file_bytes file)) (MAX_FILE_SIZE sv))), [])) \<and>
     (allowed_ext ext \<and> file_bytes file = [] \<longrightarrow>
        embed_resume sv file = (Inl (HTTPException 400 File_is_empty), [])) \<and>
     (allowed_ext ext \<and> ext \<noteq> lit ''pdf'' \<and> length (file_bytes file) \<le> MAX_FILE_SIZE sv \<and>
      decode_utf8 (file_bytes file) = None \<longrightarrow>
        embed_resume sv file = (Inl (HTTPException 400 TXT_must_be_UTF8), [])) \<and>
     (\<forall>txt calls.
        allowed_ext ext \<and> file_bytes file \<noteq> [] \<and>
        length (file_bytes file) \<le> MAX_FILE_SIZE sv \<and>
        read_text sv ext (file_bytes file) = (Inr txt, calls) \<and>
        (txt = None \<or> (\<exists>t. txt = Some t \<and> length (strip t) < 50)) \<longrightarrow>
        embed_resume sv file = (Inl (HTTPException 400 Insufficient_text), calls))"
  using assms embed_resume_unsupported [of "file" name sv]
    embed_resume_too_large [of "file" name sv] embed_resume_empty [of "file" name sv]
    embed_resume_bad_encoding [of "file" name sv]
    embed_resume_insufficient [of "file" name sv]
  by blast

theorem validation_order_witness:
  "embed_resume stub_services
     \<lparr>filename = Some (lit ''resume.exe''), file_bytes = replicate 10485761 0\<rparr>
     = (Inl (HTTPException 400 Only_PDF_and_TXT), []) \<and>
   embed_resume stub_services \<lparr>filename = Some (lit ''resume.exe''), file_bytes = []\<rparr>
     = (Inl (HTTPException 400 Only_PDF_and_TXT), []) \<and>
   embed_resume stub_services \<lparr>filename = Some (lit ''resume.pdf''), file_bytes = []\<rparr>
     = (Inl (HTTPException 400 File_is_empty), [])"
  using
    validation_order [of "\<lparr>filename = Some (lit ''resume.exe''),
                            file_bytes = replicate 10485761 0\<rparr>"
                        "lit ''resume.exe''" "lit ''exe''" stub_services]
    validation_order [of "\<lparr>filename = Some (lit ''resume.exe''), file_bytes = []\<rparr>"
                        "lit ''resume.exe''" "lit ''exe''" stub_services]
    validation_order [of "\<lparr>filename = Some (lit ''resume.pdf''), file_bytes = []\<rparr>"
                        "lit ''resume.pdf''" "lit ''pdf''" stub_services]
  by (simp add: stub_fields stub_ext ext_facts)

text \<open>
  C1. When the text read from an upload is \<open>None\<close> or, once stripped, shorter than 50
  characters, \<open>embed_resume\<close> raises the 400 for insufficient text, after the calls made
  to read the text and no other. No upload gives a success whose text is shorter, and
  \<open>get_embedding\<close> is never called on a shorter text.
\<close>

theorem insufficient_text_rejected:
  "(\<forall>name txt calls.
      filename file = Some name \<and> allowed_ext (file_ext_of (str_lower sv) name) \<and>
      file_bytes file \<noteq> [] \<and> length (file_bytes file) \<le> MAX_FILE_SIZE sv \<and>
      read_text sv (file_ext_of (str_lower sv) name) (file_bytes file) = (Inr txt, calls) \<and>
      (txt = None \<or> (\<exists>t. txt = Some t \<and> length (strip t) < 50)) \<longrightarrow>
      embed_resume sv file = (Inl (HTTPException 400 Insufficient_text), calls) \<and>
      (\<forall>t. Get_embedding t \<notin> set calls)) \<and>
   (\<forall>r calls.
      embed_resume sv file = (Inr r, calls) \<longrightarrow> 50 \<le> length (strip (resume_text r))) \<and>
   (\<forall>t. Get_embedding t \<in> set (snd (embed_resume sv file)) \<longrightarrow> 50 \<le> length (strip t))"
proof -
  have "embed_resume sv file = (Inl (HTTPException 400 Insufficient_text), calls) \<and>
        (\<forall>t. Get_embedding t \<notin> set calls)"
    if h: "filename file = Some name \<and> allowed_ext (file_ext_of (str_lower sv) name) \<and>
      file_bytes file \<noteq> [] \<and> length (file_bytes file) \<le> MAX_FILE_SIZE sv \<and>
      read_text sv (file_ext_of (str_lower sv) name) (file_bytes file) = (Inr res, calls) \<and>
      (res = None \<or> (\<exists>t. res = Some t \<and> length (strip t) < 50))"
    for name res calls
  proof
    from h show "embed_resume sv file = (Inl (HTTPException 400 Insufficient_text), calls)"
      using embed_resume_insufficient [of "file" name sv res calls] by blast
    from h have "read_text sv (file_ext_of (str_lower sv) name) (file_bytes file)
                   = (Inr res, calls)"
      by blast
    from read_text_calls [OF this] show "\<forall>t. Get_embedding t \<notin> set calls"
      by auto
  qed
  moreover have "50 \<le> length (strip (resume_text r))"
    if "embed_resume sv file = (Inr r, calls)" for r calls
    using embed_resume_success [OF that] by blast
  moreover have "50 \<le> length (strip t)"
    if "Get_embedding t \<in> set (snd (embed_resume sv file))" for t
    using that by (rule embed_resume_embedding_call)
  ultimately show ?thesis
    by blast
qed

text \<open>A PDF in which the extractor finds no text, and a text file of ten spaces.\<close>

theorem insufficient_text_rejected_witness:
  "embed_resume stub_services \<lparr>filename = Some (lit ''resume.pdf''), file_bytes = [0x25]\<rparr>
     = (Inl (HTTPException 400 Insufficient_text), [Extract_text_from_pdf [0x25]]) \<and>
   embed_resume stub_services
     \<lparr>filename = Some (lit ''resume.txt''), file_bytes = replicate 10 0x20\<rparr>
     = (Inl (HTTPException 400 Insufficient_text), [])"
proof -
  have pdf: "read_text stub_services (lit ''pdf'') [0x25]
               = (Inr (Some []), [Extract_text_from_pdf [0x25]])"
    by (simp add: read_text_def stub_fields)
  have "decode_utf8 (replicate 10 (0x20 :: byte)) = Some (replicate 10 0x20)"
    using decode_utf8_replicate_ascii [of "0x20" 10] by simp
  then have plain: "read_text stub_services (lit ''txt'') (replicate 10 0x20)
               = (Inr (Some (replicate 10 0x20)), [])"
    by (simp add: read_text_txt pdf_not_txt)
  have short: "length (strip []) < 50" "length (strip (replicate 10 0x20)) < 50"
    by (simp_all add: strip_def)
  from pdf plain short
    insufficient_text_rejected [of "\<lparr>filename = Some (lit ''resume.pdf''), file_bytes = [0x25]\<rparr>"
                                  stub_services]
    insufficient_text_rejected [of "\<lparr>filename = Some (lit ''resume.txt''),
                                      file_bytes = replicate 10 0x20\<rparr>" stub_services]
  show ?thesis
    by (simp add: stub_fields stub_ext ext_facts)
qed

text \<open>
  C2, as stated, fails: an upload over the limit whose extension is not supported is
  refused for its extension.
\<close>

theorem oversized_counterexample:
  "MAX_FILE_SIZE stub_services < length (replicate 10485761 (0 :: byte)) \<and>
   embed_resume stub_services
     \<lparr>filename = Some (lit ''resume.exe''), file_bytes = replicate 10485761 0\<rparr>
     = (Inl (HTTPException 400 Only_PDF_and_TXT), []) \<and>
   HTTPException 400 Only_PDF_and_TXT \<noteq> HTTPException 400 (File_too_large 10485761 10485760)"
  using embed_resume_unsupported
    [of "\<lparr>filename = Some (lit ''resume.exe''), file_bytes = replicate 10485761 0\<rparr>"
        "lit ''resume.exe''" stub_services]
  by (simp add: stub_fields stub_ext ext_facts)

text \<open>
  C2, amended. An upload over the limit is refused with a 400 and no call is made to
  read its text, extract attributes or embed; when its name has the extension
  \<open>pdf\<close> or \<open>txt\<close>, the 400 is the one for a file too large.
\<close>

theorem oversized_file_rejected:
  assumes "MAX_FILE_SIZE sv < length (file_bytes file)"
  shows
    "snd (embed_resume sv file) = [] \<and>
     (\<exists>d. fst (embed_resume sv file) = Inl (HTTPException 400 d)) \<and>
     (\<forall>name. filename file = Some name \<and> allowed_ext (file_ext_of (str_lower sv) name) \<longrightarrow>
        fst (embed_resume sv file) =
          Inl (HTTPException 400
                (File_too_large (length (file_bytes file)) (MAX_FILE_SIZE sv))))"
proof -
  consider (none) "filename file = None \<or> filename file = Some []"
    | (bad) name where "filename file = Some name" "name \<noteq> []"
        "\<not> allowed_ext (file_ext_of (str_lower sv) name)"
    | (ok) name where "filename file = Some name"
        "allowed_ext (file_ext_of (str_lower sv) name)"
    by (cases "filename file") auto
  then show ?thesis
  proof cases
    case none
    from embed_resume_no_name [OF this, of sv] none ext_empty_name show ?thesis
      by auto
  next
    case bad
    from embed_resume_unsupported [OF this] bad show ?thesis
      by auto
  next
    case ok
    from embed_resume_too_large [OF this assms] show ?thesis
      by auto
  qed
qed

theorem oversized_file_rejected_witness:
  "MAX_FILE_SIZE stub_services < length (replicate 10485761 (0 :: byte)) \<and>
   embed_resume stub_services
     \<lparr>filename = Some (lit ''resume.pdf''), file_bytes = replicate 10485761 0\<rparr>
     = (Inl (HTTPException 400 (File_too_large 10485761 10485760)), [])"
  using oversized_file_rejected
    [of stub_services "\<lparr>filename = Some (lit ''resume.pdf''), file_bytes = replicate 10485761 0\<rparr>"]
  by (simp add: stub_fields stub_ext ext_facts prod_eq_iff)

text \<open>
  C5, as stated, fails: an empty upload whose extension is not supported is refused
  for its extension, not for being empty.
\<close>

theorem empty_file_counterexample:
  "file_bytes \<lparr>filename = Some (lit ''resume.exe''), file_bytes = []\<rparr> = [] \<and>
   embed_resume stub_services \<lparr>filename = Some (lit ''resume.exe''), file_bytes = []\<rparr>
     = (Inl (HTTPException 400 Only_PDF_and_TXT), []) \<and>
   HTTPException 400 Only_PDF_and_TXT \<noteq> HTTPException 400 File_is_empty"
  using embed_resume_unsupported
    [of "\<lparr>filename = Some (lit ''resume.exe''), file_bytes = []\<rparr>"
        "lit ''resume.exe''" stub_services]
  by (simp add: stub_fields stub_ext ext_facts)

text \<open>
  C5, amended. An upload of no bytes whose name has the extension \<open>pdf\<close> or \<open>txt\<close> is
  refused as an empty file; an upload whose name has another extension, or none, is
  refused as an unsupported type, whatever its bytes.
\<close>

theorem empty_or_unsupported_rejected:
  assumes "filename file = Some name" and "name \<noteq> []"
  shows
    "(allowed_ext (file_ext_of (str_lower sv) name) \<and> file_bytes file = [] \<longrightarrow>
        embed_resume sv file = (Inl (HTTPException 400 File_is_empty), [])) \<and>
     (\<not> allowed_ext (file_ext_of (str_lower sv) name) \<longrightarrow>
        embed_resume sv file = (Inl (HTTPException 400 Only_PDF_and_TXT), []))"
  using assms embed_resume_empty [of "file" name sv] embed_resume_unsupported [of "file" name sv]
  by blast

theorem empty_or_unsupported_rejected_witness:
  "embed_resume stub_services \<lparr>filename = Some (lit ''resume.txt''), file_bytes = []\<rparr>
     = (Inl (HTTPException 400 File_is_empty), []) \<and>
   embed_resume stub_services \<lparr>filename = Some (lit ''resume.exe''), file_bytes = [0x25]\<rparr>
     = (Inl (HTTPException 400 Only_PDF_and_TXT), [])"
  using
    empty_or_unsupported_rejected
      [of "\<lparr>filename = Some (lit ''resume.txt''), file_bytes = []\<rparr>"
          "lit ''resume.txt''" stub_services]
    empty_or_unsupported_rejected
      [of "\<lparr>filename = Some (lit ''resume.exe''), file_bytes = [0x25]\<rparr>"
          "lit ''resume.exe''" stub_services]
  by (simp add: stub_fields stub_ext ext_facts)

lemma decode_utf8_replicate_bad: "0 < n \<Longrightarrow> 0xF4 < b \<Longrightarrow> decode_utf8 (replicate n b) = None"
  by (cases n) (simp_all add: decode_utf8_bad_lead)

text \<open>
  C6, as stated, fails: a text upload over the limit whose bytes are not UTF-8 is
  refused for its size.
\<close>

theorem invalid_utf8_counterexample:
  "decode_utf8 (replicate 10485761 0xFF) = None \<and>
   embed_resume stub_services
     \<lparr>filename = Some (lit ''resume.txt''), file_bytes = replicate 10485761 0xFF\<rparr>
     = (Inl (HTTPException 400 (File_too_large 10485761 10485760)), []) \<and>
   HTTPException 400 (File_too_large 10485761 10485760) \<noteq> HTTPException 400 TXT_must_be_UTF8"
  using decode_utf8_replicate_bad [of 10485761 "0xFF"]
    embed_resume_too_large
      [of "\<lparr>filename = Some (lit ''resume.txt''), file_bytes = replicate 10485761 0xFF\<rparr>"
          "lit ''resume.txt''" stub_services]
  by (simp add: stub_fields stub_ext ext_facts)

text \<open>
  C6, amended. A \<open>txt\<close> upload within the size limit whose bytes are not valid UTF-8
  is refused with the 400 for its encoding, before any call; and the text of a
  successful \<open>txt\<close> upload is the strict decoding of its bytes.
\<close>

theorem invalid_utf8_rejected:
  assumes "filename file = Some name"
    and "file_ext_of (str_lower sv) name = lit ''txt''"
  shows
    "(length (file_bytes file) \<le> MAX_FILE_SIZE sv \<and> decode_utf8 (file_bytes file) = None \<longrightarrow>
        embed_resume sv file = (Inl (HTTPException 400 TXT_must_be_UTF8), [])) \<and>
     (\<forall>r calls. embed_resume sv file = (Inr r, calls) \<longrightarrow>
        decode_utf8 (file_bytes file) = Some (resume_text r))"
proof -
  from assms(2) have ok: "allowed_ext (file_ext_of (str_lower sv) name)"
    and nonpdf: "file_ext_of (str_lower sv) name \<noteq> lit ''pdf''"
    by (simp_all add: allowed_ext_cases pdf_not_txt)
  have "decode_utf8 (file_bytes file) = Some (resume_text r)"
    if "embed_resume sv file = (Inr r, calls)" for r calls
  proof -
    from embed_resume_success [OF that] assms(1) obtain pre where
      "read_text sv (file_ext_of (str_lower sv) name) (file_bytes file)
         = (Inr (Some (resume_text r)), pre)"
      by auto
    with nonpdf show ?thesis
      by (auto simp: read_text_txt split: option.splits)
  qed
  with embed_resume_bad_encoding [OF assms(1) ok nonpdf] show ?thesis
    by blast
qed

theorem invalid_utf8_rejected_witness:
  "length [0xFF :: byte] \<le> MAX_FILE_SIZE stub_services \<and> decode_utf8 [0xFF] = None \<and>
   embed_resume stub_services \<lparr>filename = Some (lit ''resume.txt''), file_bytes = [0xFF]\<rparr>
     = (Inl (HTTPException 400 TXT_must_be_UTF8), [])"
  using decode_utf8_bad_lead [of "0xFF" "[]"]
    invalid_utf8_rejected
      [of "\<lparr>filename = Some (lit ''resume.txt''), file_bytes = [0xFF]\<rparr>"
          "lit ''resume.txt''" stub_services]
  by (simp add: stub_fields stub_ext ext_facts)

subsection \<open>Text that is accepted\<close>

lemma embed_resume_accepted:
  assumes "filename file = Some name"
    and "allowed_ext (file_ext_of (str_lower sv) name)"
    and "file_bytes file \<noteq> []" and "length (file_bytes file) \<le> MAX_FILE_SIZE sv"
    and "read_text sv (file_ext_of (str_lower sv) name) (file_bytes file) = (Inr (Some t), pre)"
    and "50 \<le> length (strip t)"
  shows "embed_resume sv file =
     (case embed_text sv file t of
        (Inl e, calls') \<Rightarrow> (Inl (except_clauses (str_lower sv) e), pre @ calls')
      | (Inr r, calls') \<Rightarrow> (Inr r, pre @ calls'))"
proof -
  from assms(6) have "t \<noteq> []"
    by (auto simp: strip_Nil)
  with assms(5,6) show ?thesis
    by (simp add: embed_resume_read [OF assms(1-4)])
qed

lemma read_text_ascii:
  assumes "b < 0x80"
  shows "read_text sv (lit ''txt'') (replicate n b) = (Inr (Some (replicate n (unat b))), [])"
  by (simp add: read_text_txt pdf_not_txt decode_utf8_replicate_ascii [OF assms])

lemma letter_a: "\<not> isspace 0x61" "(0x61 :: byte) < 0x80" "unat (0x61 :: byte) = 0x61"
  by (simp_all add: isspace_def)

text \<open>
  C4, as stated, fails: when \<open>extract_resume_metadata\<close> raises, the operation ends
  with a 500 and \<open>get_embedding\<close> is not called.
\<close>

theorem attribute_failure_counterexample:
  "embed_resume
     (stub_services \<lparr>extract_resume_metadata := \<lambda>t. Inl (Exception (lit ''boom''))\<rparr>)
     \<lparr>filename = Some (lit ''resume.txt''), file_bytes = replicate 50 0x61\<rparr>
     = (Inl (HTTPException 500 (Error_processing_PDF (lit ''boom''))),
        [Extract_resume_metadata (replicate 50 0x61)])"
proof -
  let ?sv = "stub_services \<lparr>extract_resume_metadata := \<lambda>t. Inl (Exception (lit ''boom''))\<rparr>"
  let ?file = "\<lparr>filename = Some (lit ''resume.txt''), file_bytes = replicate 50 0x61\<rparr>"
  have "read_text ?sv (lit ''txt'') (replicate 50 0x61) = (Inr (Some (replicate 50 0x61)), [])"
    using read_text_ascii [of "0x61" ?sv 50] by (simp add: letter_a)
  moreover have "50 \<le> length (strip (replicate 50 0x61))"
    by (simp add: strip_replicate letter_a)
  moreover have "except_clauses ascii_lower (Exception (lit ''boom''))
                   = HTTPException 500 (Error_processing_PDF (lit ''boom''))"
    by (simp add: except_clauses_def ascii_lower_def lit_def)
  ultimately show ?thesis
    using embed_resume_accepted [of ?file "lit ''resume.txt''" ?sv "replicate 50 0x61" "[]"]
    by (simp add: stub_fields stub_ext ext_facts embed_text_def)
qed

text \<open>
  C4, amended. \<open>embed_resume\<close> does not catch what attribute extraction raises. On a
  text it accepts, when \<open>extract_resume_metadata\<close> returns, \<open>get_embedding\<close> is called
  next and a success carries the attributes returned; when it raises, the operation
  ends there, without the embedding call, with the exception as the handler of
  \<open>embed_resume\<close> reports it (an \<open>HTTPException\<close> unchanged, anything else as a 500).
\<close>

theorem attribute_extraction_outcome:
  assumes "filename file = Some name"
    and "allowed_ext (file_ext_of (str_lower sv) name)"
    and "file_bytes file \<noteq> []" and "length (file_bytes file) \<le> MAX_FILE_SIZE sv"
    and "read_text sv (file_ext_of (str_lower sv) name) (file_bytes file) = (Inr (Some t), pre)"
    and "50 \<le> length (strip t)"
  shows
    "(\<forall>e. extract_resume_metadata sv t = Inl e \<longrightarrow>
        embed_resume sv file =
          (Inl (except_clauses (str_lower sv) e), pre @ [Extract_resume_metadata t])) \<and>
     (\<forall>m. extract_resume_metadata sv t = Inr m \<longrightarrow>
        snd (embed_resume sv file) = pre @ [Extract_resume_metadata t, Get_embedding t] \<and>
        (\<forall>r. fst (embed_resume sv file) = Inr r \<longrightarrow> resume_metadata r = m))"
  by (auto simp: embed_resume_accepted [OF assms] embed_text_def split: sum.splits)

theorem attribute_extraction_outcome_witness:
  "embed_resume
     (stub_services \<lparr>extract_resume_metadata := \<lambda>t. Inl (HTTPException 503 Connection_timeout)\<rparr>)
     \<lparr>filename = Some (lit ''resume.txt''), file_bytes = replicate 50 0x61\<rparr>
     = (Inl (HTTPException 503 Connection_timeout), [Extract_resume_metadata (replicate 50 0x61)]) \<and>
   snd (embed_resume stub_services
     \<lparr>filename = Some (lit ''resume.txt''), file_bytes = replicate 50 0x61\<rparr>)
     = [Extract_resume_metadata (replicate 50 0x61), Get_embedding (replicate 50 0x61)]"
proof -
  let ?sv = "stub_services
               \<lparr>extract_resume_metadata := \<lambda>t. Inl (HTTPException 503 Connection_timeout)\<rparr>"
  let ?file = "\<lparr>filename = Some (lit ''resume.txt''), file_bytes = replicate 50 0x61\<rparr>"
  have "read_text ?sv (lit ''txt'') (replicate 50 0x61) = (Inr (Some (replicate 50 0x61)), [])"
    "read_text stub_services (lit ''txt'') (replicate 50 0x61)
       = (Inr (Some (replicate 50 0x61)), [])"
    using read_text_ascii [of "0x61" ?sv 50] read_text_ascii [of "0x61" stub_services 50]
    by (simp_all add: letter_a)
  moreover have "50 \<le> length (strip (replicate 50 0x61))"
    by (simp add: strip_replicate letter_a)
  ultimately show ?thesis
    using attribute_extraction_outcome [of ?file "lit ''resume.txt''" ?sv "replicate 50 0x61" "[]"]
      attribute_extraction_outcome
        [of ?file "lit ''resume.txt''" stub_services "replicate 50 0x61" "[]"]
    by (simp add: stub_fields stub_ext ext_facts except_clauses_HTTP)
qed

text \<open>
  C3. The docstring of \<open>embed_resume\<close> gives a maximum text length of 50,000
  characters. A text upload of 50,001 letters is accepted as it is: the response
  reports 50,001 characters and \<open>get_embedding\<close> receives all of them.
\<close>

theorem text_not_truncated:
  "embed_resume stub_services
     \<lparr>filename = Some (lit ''resume.txt''), file_bytes = replicate 50001 0x61\<rparr>
     = (Inr \<lparr> status = lit ''success'',
              resp_filename = Some (lit ''resume.txt''),
              file_size_bytes = 50001,
              text_length = 50001,
              embedding_dimension = 1536,
              processing_time_ms = 0,
              resume_text = replicate 50001 0x61,
              resume_metadata = (),
              message = lit ''Resume successfully embedded. Ready for matching.'' \<rparr>,
        [Extract_resume_metadata (replicate 50001 0x61),
         Get_embedding (replicate 50001 0x61)])"
proof -
  let ?file = "\<lparr>filename = Some (lit ''resume.txt''), file_bytes = replicate 50001 0x61\<rparr>"
  have "read_text stub_services (lit ''txt'') (replicate 50001 0x61)
          = (Inr (Some (replicate 50001 0x61)), [])"
    using read_text_ascii [of "0x61" stub_services 50001] by (simp add: letter_a)
  moreover have "50 \<le> length (strip (replicate 50001 0x61))"
    by (simp add: strip_replicate letter_a)
  ultimately show ?thesis
    using embed_resume_accepted
      [of ?file "lit ''resume.txt''" stub_services "replicate 50001 0x61" "[]"]
    by (simp add: stub_fields stub_ext ext_facts embed_text_def)
qed

subsection \<open>Kinds of failure\<close>

lemma embed_resume_is_HTTP:
  assumes "embed_resume sv file = (Inl e, calls)"
  shows "\<exists>code d. e = HTTPException code d"
  using assms except_clauses_is_HTTP [of "str_lower sv"]
  by (auto simp: embed_resume_def Let_def split: option.splits if_splits prod.splits sum.splits)

lemma embed_resume_other_exception:
  assumes "filename file = Some name"
    and "allowed_ext (file_ext_of (str_lower sv) name)"
    and "try_body sv file (file_ext_of (str_lower sv) name) = (Inl (Exception msg), calls)"
  shows "embed_resume sv file =
     (Inl (HTTPException 500
            (if str_contains (lit ''timeout'') (str_lower sv msg) \<or>
                str_contains (lit ''connection'') (str_lower sv msg)
             then Connection_timeout else Error_processing_PDF msg)), calls)"
  by (simp add: embed_resume_allowed [OF assms(1,2)] assms(3) except_clauses_def)

lemma embed_resume_reraised:
  assumes "filename file = Some name"
    and "allowed_ext (file_ext_of (str_lower sv) name)"
    and "try_body sv file (file_ext_of (str_lower sv) name) = (Inl (HTTPException code d), calls)"
  shows "embed_resume sv file = (Inl (HTTPException code d), calls)"
  by (simp add: embed_resume_allowed [OF assms(1,2)] assms(3) except_clauses_HTTP)

lemma try_body_provider_exception:
  assumes "file_bytes file \<noteq> []" and "length (file_bytes file) \<le> MAX_FILE_SIZE sv"
    and "read_text sv ext (file_bytes file) = (Inr (Some t), pre)"
    and "50 \<le> length (strip t)"
    and "extract_resume_metadata sv t = Inr m"
    and "get_embedding sv t = Inl e"
  shows "try_body sv file ext = (Inl e, pre @ [Extract_resume_metadata t, Get_embedding t])"
proof -
  from assms(4) have "t \<noteq> []"
    by (auto simp: strip_Nil)
  with assms(3-6) show ?thesis
    by (simp add: try_body_read [OF assms(1,2)] embed_text_def)
qed

lemma detail_texts_distinct:
  "distinct
     [detail_text f g Filename_is_required, detail_text f g Only_PDF_and_TXT,
      detail_text f g (File_too_large a b), detail_text f g File_is_empty,
      detail_text f g TXT_must_be_UTF8, detail_text f g Insufficient_text,
      detail_text f g Connection_timeout, detail_text f g (Error_processing_PDF msg)]"
  by (simp add: lit_def)

text \<open>
  C7, as stated, fails. An embedding provider that times out with the message
  \<open>Request timed out.\<close> is reported as \<open>Error processing PDF\<close>, like any other
  internal failure, because the message has neither \<open>timeout\<close> nor \<open>connection\<close> in
  it; and a provider that raises an \<open>HTTPException\<close> with status 400 is reported as
  that client error.
\<close>

theorem transient_failure_counterexample:
  "fst (embed_resume
          (stub_services \<lparr>get_embedding := \<lambda>t. Inl (Exception (lit ''Request timed out.''))\<rparr>)
          \<lparr>filename = Some (lit ''resume.txt''), file_bytes = replicate 50 0x61\<rparr>)
     = Inl (HTTPException 500 (Error_processing_PDF (lit ''Request timed out.''))) \<and>
   fst (embed_resume
          (stub_services \<lparr>get_embedding := \<lambda>t. Inl (Exception (lit ''no data''))\<rparr>)
          \<lparr>filename = Some (lit ''resume.txt''), file_bytes = replicate 50 0x61\<rparr>)
     = Inl (HTTPException 500 (Error_processing_PDF (lit ''no data''))) \<and>
   fst (embed_resume
          (stub_services \<lparr>get_embedding := \<lambda>t. Inl (HTTPException 400 File_is_empty)\<rparr>)
          \<lparr>filename = Some (lit ''resume.txt''), file_bytes = replicate 50 0x61\<rparr>)
     = Inl (HTTPException 400 File_is_empty)"
proof -
  let ?slow = "stub_services
                 \<lparr>get_embedding := \<lambda>t. Inl (Exception (lit ''Request timed out.''))\<rparr>"
  let ?bad = "stub_services \<lparr>get_embedding := \<lambda>t. Inl (Exception (lit ''no data''))\<rparr>"
  let ?http = "stub_services \<lparr>get_embedding := \<lambda>t. Inl (HTTPException 400 File_is_empty)\<rparr>"
  let ?file = "\<lparr>filename = Some (lit ''resume.txt''), file_bytes = replicate 50 0x61\<rparr>"
  let ?calls = "[Extract_resume_metadata (replicate 50 0x61), Get_embedding (replicate 50 0x61)]"
  have len: "50 \<le> length (strip (replicate 50 0x61))"
    by (simp add: strip_replicate letter_a)
  have "read_text ?slow (lit ''txt'') (replicate 50 0x61) = (Inr (Some (replicate 50 0x61)), [])"
    using read_text_ascii [of "0x61" ?slow 50] by (simp add: letter_a)
  then have "try_body ?slow ?file (lit ''txt'')
               = (Inl (Exception (lit ''Request timed out.'')), ?calls)"
    using try_body_provider_exception
      [of ?file ?slow "lit ''txt''" "replicate 50 0x61" "[]" "()"
          "Exception (lit ''Request timed out.'')"] len
    by (simp add: stub_fields)
  then have slow: "embed_resume ?slow ?file =
      (Inl (HTTPException 500
             (if str_contains (lit ''timeout'') (ascii_lower (lit ''Request timed out.'')) \<or>
                 str_contains (lit ''connection'') (ascii_lower (lit ''Request timed out.''))
              then Connection_timeout
              else Error_processing_PDF (lit ''Request timed out.''))), ?calls)"
    using embed_resume_other_exception
      [of ?file "lit ''resume.txt''" ?slow "lit ''Request timed out.''" ?calls]
    by (simp add: stub_fields stub_ext ext_facts)
  have "read_text ?bad (lit ''txt'') (replicate 50 0x61) = (Inr (Some (replicate 50 0x61)), [])"
    using read_text_ascii [of "0x61" ?bad 50] by (simp add: letter_a)
  then have "try_body ?bad ?file (lit ''txt'') = (Inl (Exception (lit ''no data'')), ?calls)"
    using try_body_provider_exception
      [of ?file ?bad "lit ''txt''" "replicate 50 0x61" "[]" "()" "Exception (lit ''no data'')"]
      len
    by (simp add: stub_fields)
  then have bad: "embed_resume ?bad ?file =
      (Inl (HTTPException 500
             (if str_contains (lit ''timeout'') (ascii_lower (lit ''no data'')) \<or>
                 str_contains (lit ''connection'') (ascii_lower (lit ''no data''))
              then Connection_timeout
              else Error_processing_PDF (lit ''no data''))), ?calls)"
    using embed_resume_other_exception
      [of ?file "lit ''resume.txt''" ?bad "lit ''no data''" ?calls]
    by (simp add: stub_fields stub_ext ext_facts)
  have "read_text ?http (lit ''txt'') (replicate 50 0x61) = (Inr (Some (replicate 50 0x61)), [])"
    using read_text_ascii [of "0x61" ?http 50] by (simp add: letter_a)
  then have "try_body ?http ?file (lit ''txt'') = (Inl (HTTPException 400 File_is_empty), ?calls)"
    using try_body_provider_exception
      [of ?file ?http "lit ''txt''" "replicate 50 0x61" "[]" "()" "HTTPException 400 File_is_empty"]
      len
    by (simp add: stub_fields)
  then have http: "embed_resume ?http ?file = (Inl (HTTPException 400 File_is_empty), ?calls)"
    using embed_resume_reraised
      [of ?file "lit ''resume.txt''" ?http 400 File_is_empty ?calls]
    by (simp add: stub_fields stub_ext ext_facts)
  have msgs:
    "\<not> str_contains (lit ''timeout'') (ascii_lower (lit ''Request timed out.''))"
    "\<not> str_contains (lit ''connection'') (ascii_lower (lit ''Request timed out.''))"
    "\<not> str_contains (lit ''timeout'') (ascii_lower (lit ''no data''))"
    "\<not> str_contains (lit ''connection'') (ascii_lower (lit ''no data''))"
    by (simp_all add: ascii_lower_def lit_def)
  from slow bad http msgs show ?thesis
    by simp
qed

text \<open>
  C7, amended. Whatever ends \<open>embed_resume\<close> is an \<open>HTTPException\<close> with a status and a
  detail. The refusals of the input (unsupported type, file too large, empty file,
  bad encoding, insufficient text) have status 400 and each its own detail. An
  \<open>HTTPException\<close> raised inside the \<open>try\<close> is raised again unchanged. Any other
  exception raised inside the \<open>try\<close> has status 500: the detail \<open>Connection timeout\<close>
  exactly when its message, in lower case, contains \<open>timeout\<close> or \<open>connection\<close>, and
  \<open>Error processing PDF\<close> with the message otherwise; nothing but this test on the
  message tells a timeout or connection failure from another internal failure. The
  texts of all these details differ from one another.
\<close>

theorem failures_classified:
  "(\<forall>e calls. embed_resume sv file = (Inl e, calls) \<longrightarrow> (\<exists>code d. e = HTTPException code d)) \<and>
   (\<forall>name.
      filename file = Some name \<and> name \<noteq> [] \<and>
      \<not> allowed_ext (file_ext_of (str_lower sv) name) \<longrightarrow>
      fst (embed_resume sv file) = Inl (HTTPException 400 Only_PDF_and_TXT)) \<and>
   (\<forall>name.
      filename file = Some name \<and> allowed_ext (file_ext_of (str_lower sv) name) \<longrightarrow>
      (MAX_FILE_SIZE sv < length (file_bytes file) \<longrightarrow>
         fst (embed_resume sv file) =
           Inl (HTTPException 400
                 (File_too_large (length (file_bytes file)) (MAX_FILE_SIZE sv)))) \<and>
      (file_bytes file = [] \<longrightarrow>
         fst (embed_resume sv file) = Inl (HTTPException 400 File_is_empty)) \<and>
      (file_ext_of (str_lower sv) name \<noteq> lit ''pdf'' \<and>
       length (file_bytes file) \<le> MAX_FILE_SIZE sv \<and> decode_utf8 (file_bytes file) = None \<longrightarrow>
         fst (embed_resume sv file) = Inl (HTTPException 400 TXT_must_be_UTF8)) \<and>
      (\<forall>res calls.
         file_bytes file \<noteq> [] \<and> length (file_bytes file) \<le> MAX_FILE_SIZE sv \<and>
         read_text sv (file_ext_of (str_lower sv) name) (file_bytes file) = (Inr res, calls) \<and>
         (res = None \<or> (\<exists>t. res = Some t \<and> length (strip t) < 50)) \<longrightarrow>
         fst (embed_resume sv file) = Inl (HTTPException 400 Insufficient_text)) \<and>
      (\<forall>msg calls.
         try_body sv file (file_ext_of (str_lower sv) name) = (Inl (Exception msg), calls) \<longrightarrow>
         fst (embed_resume sv file) =
           Inl (HTTPException 500
                 (if str_contains (lit ''timeout'') (str_lower sv msg) \<or>
                     str_contains (lit ''connection'') (str_lower sv msg)
                  then Connection_timeout else Error_processing_PDF msg))) \<and>
      (\<forall>code d calls.
         try_body sv file (file_ext_of (str_lower sv) name)
           = (Inl (HTTPException code d), calls) \<longrightarrow>
         fst (embed_resume sv file) = Inl (HTTPException code d))) \<and>
   (\<forall>f g a b msg.
      distinct
        [detail_text f g Filename_is_required, detail_text f g Only_PDF_and_TXT,
         detail_text f g (File_too_large a b), detail_text f g File_is_empty,
         detail_text f g TXT_must_be_UTF8, detail_text f g Insufficient_text,
         detail_text f g Connection_timeout, detail_text f g (Error_processing_PDF msg)])"
proof -
  have "\<exists>code d. e = HTTPException code d"
    if "embed_resume sv file = (Inl e, calls)" for e calls
    using that by (rule embed_resume_is_HTTP)
  moreover have "fst (embed_resume sv file) = Inl (HTTPException 400 Only_PDF_and_TXT)"
    if "filename file = Some name \<and> name \<noteq> [] \<and>
        \<not> allowed_ext (file_ext_of (str_lower sv) name)" for name
    using that embed_resume_unsupported [of "file" name sv] by simp
  moreover have
    "(MAX_FILE_SIZE sv < length (file_bytes file) \<longrightarrow>
         fst (embed_resume sv file) =
           Inl (HTTPException 400
                 (File_too_large (length (file_bytes file)) (MAX_FILE_SIZE sv)))) \<and>
      (file_bytes file = [] \<longrightarrow>
         fst (embed_resume sv file) = Inl (HTTPException 400 File_is_empty)) \<and>
      (file_ext_of (str_lower sv) name \<noteq> lit ''pdf'' \<and>
       length (file_bytes file) \<le> MAX_FILE_SIZE sv \<and> decode_utf8 (file_bytes file) = None \<longrightarrow>
         fst (embed_resume sv file) = Inl (HTTPException 400 TXT_must_be_UTF8)) \<and>
      (\<forall>res calls.
         file_bytes file \<noteq> [] \<and> length (file_bytes file) \<le> MAX_FILE_SIZE sv \<and>
         read_text sv (file_ext_of (str_lower sv) name) (file_bytes file) = (Inr res, calls) \<and>
         (res = None \<or> (\<exists>t. res = Some t \<and> length (strip t) < 50)) \<longrightarrow>
         fst (embed_resume sv file) = Inl (HTTPException 400 Insufficient_text)) \<and>
      (\<forall>msg calls.
         try_body sv file (file_ext_of (str_lower sv) name) = (Inl (Exception msg), calls) \<longrightarrow>
         fst (embed_resume sv file) =
           Inl (HTTPException 500
                 (if str_contains (lit ''timeout'') (str_lower sv msg) \<or>
                     str_contains (lit ''connection'') (str_lower sv msg)
                  then Connection_timeout else Error_processing_PDF msg))) \<and>
      (\<forall>code d calls.
         try_body sv file (file_ext_of (str_lower sv) name)
           = (Inl (HTTPException code d), calls) \<longrightarrow>
         fst (embed_resume sv file) = Inl (HTTPException code d))"
    if h: "filename file = Some name \<and> allowed_ext (file_ext_of (str_lower sv) name)" for name
  proof -
    from h have n: "filename file = Some name"
      and ok: "allowed_ext (file_ext_of (str_lower sv) name)"
      by simp_all
    show ?thesis
      using embed_resume_too_large [OF n ok] embed_resume_empty [OF n ok]
        embed_resume_bad_encoding [OF n ok] embed_resume_insufficient [OF n ok]
        embed_resume_other_exception [OF n ok] embed_resume_reraised [OF n ok]
      by (intro conjI allI impI) (simp, simp, simp, (elim conjE, simp), simp, simp)
  qed
  ultimately show ?thesis
    using detail_texts_distinct by blast
qed

text \<open>
  An embedding provider that raises with a message about a timeout, and one that
  raises with another message.
\<close>

theorem failures_classified_witness:
  "fst (embed_resume
          (stub_services \<lparr>get_embedding := \<lambda>t. Inl (Exception (lit ''Read Timeout''))\<rparr>)
          \<lparr>filename = Some (lit ''resume.txt''), file_bytes = replicate 50 0x61\<rparr>)
     = Inl (HTTPException 500 Connection_timeout) \<and>
   fst (embed_resume
          (stub_services \<lparr>get_embedding := \<lambda>t. Inl (Exception (lit ''no data''))\<rparr>)
          \<lparr>filename = Some (lit ''resume.txt''), file_bytes = replicate 50 0x61\<rparr>)
     = Inl (HTTPException 500 (Error_processing_PDF (lit ''no data''))) \<and>
   fst (embed_resume stub_services \<lparr>filename = Some (lit ''resume.txt''), file_bytes = []\<rparr>)
     = Inl (HTTPException 400 File_is_empty)"
proof -
  let ?slow = "stub_services \<lparr>get_embedding := \<lambda>t. Inl (Exception (lit ''Read Timeout''))\<rparr>"
  let ?bad = "stub_services \<lparr>get_embedding := \<lambda>t. Inl (Exception (lit ''no data''))\<rparr>"
  let ?file = "\<lparr>filename = Some (lit ''resume.txt''), file_bytes = replicate 50 0x61\<rparr>"
  have len: "50 \<le> length (strip (replicate 50 0x61))"
    by (simp add: strip_replicate letter_a)
  have "read_text ?slow (lit ''txt'') (replicate 50 0x61) = (Inr (Some (replicate 50 0x61)), [])"
    using read_text_ascii [of "0x61" ?slow 50] by (simp add: letter_a)
  then have slow: "try_body ?slow ?file (lit ''txt'') =
      (Inl (Exception (lit ''Read Timeout'')),
       [Extract_resume_metadata (replicate 50 0x61), Get_embedding (replicate 50 0x61)])"
    using try_body_provider_exception
      [of ?file ?slow "lit ''txt''" "replicate 50 0x61" "[]" "()" "Exception (lit ''Read Timeout'')"]
      len
    by (simp add: stub_fields)
  have "read_text ?bad (lit ''txt'') (replicate 50 0x61) = (Inr (Some (replicate 50 0x61)), [])"
    using read_text_ascii [of "0x61" ?bad 50] by (simp add: letter_a)
  then have bad: "try_body ?bad ?file (lit ''txt'') =
      (Inl (Exception (lit ''no data'')),
       [Extract_resume_metadata (replicate 50 0x61), Get_embedding (replicate 50 0x61)])"
    using try_body_provider_exception
      [of ?file ?bad "lit ''txt''" "replicate 50 0x61" "[]" "()" "Exception (lit ''no data'')"]
      len
    by (simp add: stub_fields)
  have msgs:
    "str_contains (lit ''timeout'') (ascii_lower (lit ''Read Timeout''))"
    "\<not> str_contains (lit ''timeout'') (ascii_lower (lit ''no data''))"
    "\<not> str_contains (lit ''connection'') (ascii_lower (lit ''no data''))"
    by (simp_all add: ascii_lower_def lit_def)
  from slow bad msgs
    failures_classified [of ?slow ?file] failures_classified [of ?bad ?file]
    failures_classified
      [of stub_services "\<lparr>filename = Some (lit ''resume.txt''), file_bytes = []\<rparr>"]
  show ?thesis
    by (simp add: stub_fields stub_ext ext_facts)
qed

section \<open>Properties of the ingestion script\<close>

subsection \<open>Tags and whitespace\<close>

lemma set_remove_tags: "set (remove_tags s) \<subseteq> set s"
proof (induction s rule: remove_tags.induct)
  case 1
  then show ?case by simp
next
  case (2 c cs)
  have "set (tl xs) \<subseteq> set xs" for xs :: str
    by (cases xs) auto
  moreover have "set (dropWhile (\<lambda>x. x \<noteq> GT) cs) \<subseteq> set cs"
    by (auto dest: set_dropWhileD)
  ultimately have "set (tl (dropWhile (\<lambda>x. x \<noteq> GT) cs)) \<subseteq> set cs"
    by blast
  with 2 show ?case
    by auto
qed

lemma tag_at_remove_tags: "\<not> tag_at cs \<Longrightarrow> \<not> tag_at (remove_tags cs)"
proof (cases cs)
  case Nil
  then show ?thesis by (simp add: tag_at_def)
next
  case (Cons d ds)
  assume no: "\<not> tag_at cs"
  show ?thesis
  proof (cases "d = GT")
    case True
    then have "d \<noteq> LT"
      by (simp add: LT_def GT_def)
    with True Cons show ?thesis
      by (simp add: tag_at_def)
  next
    case False
    with no Cons have "GT \<notin> set cs"
      by (auto simp: tag_at_def)
    with set_remove_tags [of cs] have "GT \<notin> set (remove_tags cs)"
      by blast
    then have "dropWhile (\<lambda>x. x \<noteq> GT) (remove_tags cs) = []"
      by auto
    then show ?thesis
      by (simp add: tag_at_def)
  qed
qed

lemma no_tag_remove_tags: "\<not> has_tag (remove_tags s)"
proof (induction s rule: remove_tags.induct)
  case 1
  then show ?case by simp
next
  case (2 c cs)
  then show ?case
    using tag_at_remove_tags [of cs] by auto
qed

lemma tag_at_append: "tag_at cs \<Longrightarrow> tag_at (cs @ ys)"
proof -
  assume t: "tag_at cs"
  then obtain x where x: "x \<in> set cs" "\<not> x \<noteq> GT"
    by (auto simp: tag_at_def dropWhile_eq_Nil_conv)
  then have "takeWhile (\<lambda>x. x \<noteq> GT) (cs @ ys) = takeWhile (\<lambda>x. x \<noteq> GT) cs"
    and "dropWhile (\<lambda>x. x \<noteq> GT) (cs @ ys) = dropWhile (\<lambda>x. x \<noteq> GT) cs @ ys"
    by (simp_all add: takeWhile_append1 dropWhile_append1)
  with t show ?thesis
    by (simp add: tag_at_def)
qed

lemma has_tag_append_left: "has_tag ys \<Longrightarrow> has_tag (xs @ ys)"
  by (induction xs) auto

lemma has_tag_append_right: "has_tag xs \<Longrightarrow> has_tag (xs @ ys)"
  by (induction xs) (auto simp: tag_at_append)

lemma strip_decomposition: "\<exists>pre post. s = pre @ strip s @ post"
proof -
  let ?ys = "dropWhile isspace s"
  have "s = takeWhile isspace s @ ?ys"
    by simp
  moreover have "rev ?ys = takeWhile isspace (rev ?ys) @ dropWhile isspace (rev ?ys)"
    by simp
  then have "?ys = strip s @ rev (takeWhile isspace (rev ?ys))"
    by (metis rev_append rev_rev_ident strip_def)
  ultimately show ?thesis
    by metis
qed

lemma no_tag_strip: "\<not> has_tag s \<Longrightarrow> \<not> has_tag (strip s)"
proof -
  obtain pre post where "s = pre @ strip s @ post"
    using strip_decomposition by blast
  then show "\<not> has_tag s \<Longrightarrow> \<not> has_tag (strip s)"
    by (metis has_tag_append_left has_tag_append_right)
qed

lemma strip_ends:
  assumes "strip s \<noteq> []"
  shows "\<not> isspace (hd (strip s)) \<and> \<not> isspace (last (strip s))"
proof -
  let ?ys = "dropWhile isspace s"
  let ?zs = "dropWhile isspace (rev ?ys)"
  from assms have zs: "?zs \<noteq> []"
    by (simp add: strip_def)
  then have "\<not> isspace (hd ?zs)"
    by (rule hd_dropWhile)
  with zs have last: "\<not> isspace (last (strip s))"
    by (simp add: strip_def last_rev)
  have ys: "?ys \<noteq> []"
  proof
    assume "?ys = []"
    then have "?zs = []"
      by (simp del: dropWhile_eq_Nil_conv)
    with zs show False
      by contradiction
  qed
  then have "\<not> isspace (hd ?ys)"
    by (rule hd_dropWhile)
  moreover have "rev ?ys = takeWhile isspace (rev ?ys) @ ?zs"
    by simp
  then have "?ys = strip s @ rev (takeWhile isspace (rev ?ys))"
    by (metis rev_append rev_rev_ident strip_def)
  with assms have "hd ?ys = hd (strip s)"
    by (metis hd_append2)
  ultimately show ?thesis
    using last by simp
qed

subsection \<open>The text of a job\<close>

lemma dict_get_str:
  "job key = map_option PStr x \<Longrightarrow>
   dict_get job key (PStr []) = PStr (case x of None \<Rightarrow> [] | Some s \<Rightarrow> s)"
  by (cases x) (simp_all add: dict_get_def)

text \<open>
  C10. For a job whose title, company name, category, requirements,
  responsibilities and location are strings where present, \<open>create_job_text\<close> returns
  these six joined with spaces (an absent one counting as empty) with the matches of
  \<open><[^>]+>\<close> removed and then stripped; no match of the pattern is left in the result,
  and the result neither starts nor ends with whitespace.
\<close>

theorem create_job_text_result:
  assumes "job (lit ''title'') = map_option PStr title"
    and "job (lit ''company_name'') = map_option PStr company_name"
    and "job (lit ''job_category'') = map_option PStr job_category"
    and "job (lit ''requirements'') = map_option PStr requirements"
    and "job (lit ''responsibilities'') = map_option PStr responsibilities"
    and "job (lit ''location'') = map_option PStr location"
  shows
    "\<exists>text.
       create_job_text job = Inr text \<and>
       text = strip (remove_tags (join (lit '' '')
                (map (\<lambda>field. case field of None \<Rightarrow> [] | Some s \<Rightarrow> s)
                   [title, company_name, job_category, requirements, responsibilities,
                    location]))) \<and>
       \<not> has_tag text \<and>
       (text \<noteq> [] \<longrightarrow> \<not> isspace (hd text) \<and> \<not> isspace (last text))"
proof -
  let ?joined = "join (lit '' '')
     (map (\<lambda>field. case field of None \<Rightarrow> [] | Some s \<Rightarrow> s)
        [title, company_name, job_category, requirements, responsibilities, location])"
  note fields =
    dict_get_str [of job "lit ''title''" title, OF assms(1)]
    dict_get_str [of job "lit ''company_name''" company_name, OF assms(2)]
    dict_get_str [of job "lit ''job_category''" job_category, OF assms(3)]
    dict_get_str [of job "lit ''requirements''" requirements, OF assms(4)]
    dict_get_str [of job "lit ''responsibilities''" responsibilities, OF assms(5)]
    dict_get_str [of job "lit ''location''" location, OF assms(6)]
  have "create_job_text job = Inr (strip (remove_tags ?joined))"
    by (simp add: create_job_text_def job_text_fields_def fields)
  moreover have "\<not> has_tag (strip (remove_tags ?joined))"
    by (intro no_tag_strip no_tag_remove_tags)
  moreover have "strip (remove_tags ?joined) \<noteq> [] \<longrightarrow>
      \<not> isspace (hd (strip (remove_tags ?joined))) \<and>
      \<not> isspace (last (strip (remove_tags ?joined)))"
    using strip_ends by blast
  ultimately show ?thesis
    by blast
qed

lemma remove_tags_examples:
  "remove_tags (lit ''a<b>c'') = lit ''ac''"
  "remove_tags (lit ''<>x<y'') = lit ''<>x<y''"
  "remove_tags (lit ''<<a>b>'') = lit ''b>''"
  "remove_tags (lit ''x<a b=1>y</a>'') = lit ''xy''"
  by (simp_all add: lit_def tag_at_def LT_def GT_def)

theorem create_job_text_result_witness:
  "create_job_text
     [lit ''title'' \<mapsto> PStr (lit ''<b>Dev</b>''), lit ''location'' \<mapsto> PStr (lit ''NYC '')]
   = Inr (lit ''Dev     NYC'')"
  using create_job_text_result
    [of "[lit ''title'' \<mapsto> PStr (lit ''<b>Dev</b>''), lit ''location'' \<mapsto> PStr (lit ''NYC '')]"
        "Some (lit ''<b>Dev</b>'')" None None None None "Some (lit ''NYC '')"]
  by (simp add: lit_def tag_at_def LT_def GT_def strip_def isspace_def)

subsection \<open>The vectors sent to the index\<close>

lemma build_metadata_shape:
  assumes "build_metadata env job = Inr md"
  shows "\<exists>y a b.
     py_int env (dict_get job (lit ''yoe_min'') (PInt 0)) = Inr y \<and>
     py_float env (dict_get job (lit ''equity_min'') (PFloat 0)) = Inr a \<and>
     py_float env (dict_get job (lit ''equity_max'') (PFloat 0)) = Inr b \<and>
     md = [(lit ''company_name'', dict_get job (lit ''company_name'') (PStr [])),
           (lit ''location'', dict_get job (lit ''location'') (PStr [])),
           (lit ''job_category'', dict_get job (lit ''job_category'') (PStr [])),
           (lit ''employment_type'', dict_get job (lit ''employment_type'') (PStr [])),
           (lit ''work_location_type'', dict_get job (lit ''work_location_type'') (PStr [])),
           (lit ''status'', dict_get job (lit ''status'') (PStr (lit ''active''))),
           (lit ''ideal_companies'', dict_get job (lit ''idealCompanies'') (PList [])),
           (lit ''h1b_sponsorship'',
              PBool (py_bool (dict_get job (lit ''h1b_sponsorship'') (PBool False)))),
           (lit ''yoe_min'', PInt y),
           (lit ''equity_min'', PFloat a),
           (lit ''equity_max'', PFloat b)]"
  using assms by (auto simp: build_metadata_def split: sum.splits)

lemma prepare_vector_metadata:
  "prepare_vector env job = Inr v \<Longrightarrow> build_metadata env job = Inr (metadata v)"
  by (auto simp: prepare_vector_def split: sum.splits option.splits)

lemma upload_jobs_vectors:
  assumes "Upsert vs \<in> set (snd (upload_jobs env jobs vectors n))" and "v \<in> set vs"
  shows "v \<in> set vectors \<or> (\<exists>job \<in> set jobs. prepare_vector env job = Inr v)"
  using assms
proof (induction jobs arbitrary: vectors n)
  case Nil
  then show ?case
    by (auto split: if_splits)
next
  case (Cons job jobs)
  show ?case
  proof (cases "prepare_vector env job")
    case (Inl e)
    with Cons.prems show ?thesis
      by simp
  next
    case (Inr w)
    show ?thesis
    proof (cases "batch_size \<le> length (vectors @ [w])")
      case full: True
      show ?thesis
      proof (cases "upsert_raises env n")
        case (Some e)
        with Cons.prems Inr full show ?thesis
          by auto
      next
        case None
        with Cons.prems Inr full
        have "vs = vectors @ [w] \<or> Upsert vs \<in> set (snd (upload_jobs env jobs [] (Suc n)))"
          by (auto split: prod.splits)
        then show ?thesis
        proof
          assume "vs = vectors @ [w]"
          with Cons.prems(2) Inr show ?thesis
            by auto
        next
          assume "Upsert vs \<in> set (snd (upload_jobs env jobs [] (Suc n)))"
          from Cons.IH [OF this Cons.prems(2)] show ?thesis
            by auto
        qed
      qed
    next
      case False
      with Cons.prems Inr
      have "Upsert vs \<in> set (snd (upload_jobs env jobs (vectors @ [w]) n))"
        by simp
      from Cons.IH [OF this Cons.prems(2)] Inr show ?thesis
        by auto
    qed
  qed
qed

lemma embed_jobs_vectors:
  assumes "Upsert vs \<in> set (snd (embed_jobs env jobs))" and "v \<in> set vs"
  shows "\<exists>job \<in> set jobs. prepare_vector env job = Inr v"
proof -
  from assms(1) have "Upsert vs \<in> set (snd (upload_jobs env jobs [] 0))"
    by (auto simp: embed_jobs_def setup_pinecone_index_def Let_def
        split: if_splits prod.splits)
  from upload_jobs_vectors [OF this assms(2)] show ?thesis
    by simp
qed

text \<open>
  C8, as stated, fails: a job with \<open>yoe_min\<close> of -2, an \<open>equity_min\<close> of 0.5 and no
  \<open>equity_max\<close> is upserted with a negative \<open>yoe_min\<close> and an \<open>equity_max\<close> of 0.0.
\<close>

theorem metadata_invariants_counterexample:
  "embed_jobs stub_ingestion
     [[lit ''job_id'' \<mapsto> PStr (lit ''j1''), lit ''yoe_min'' \<mapsto> PInt (- 2),
       lit ''equity_min'' \<mapsto> PFloat (1 / 2)]]
   = (None,
      [Upsert
         [\<lparr> vector_id = PStr (lit ''j1''), vector_values = 0,
             metadata =
               [(lit ''company_name'', PStr []), (lit ''location'', PStr []),
                (lit ''job_category'', PStr []), (lit ''employment_type'', PStr []),
                (lit ''work_location_type'', PStr []), (lit ''status'', PStr (lit ''active'')),
                (lit ''ideal_companies'', PList []), (lit ''h1b_sponsorship'', PBool False),
                (lit ''yoe_min'', PInt (- 2)), (lit ''equity_min'', PFloat (1 / 2)),
                (lit ''equity_max'', PFloat 0)] \<rparr>]]) \<and>
   \<not> satisfies_job_invariants
       [(lit ''company_name'', PStr []), (lit ''location'', PStr []),
        (lit ''job_category'', PStr []), (lit ''employment_type'', PStr []),
        (lit ''work_location_type'', PStr []), (lit ''status'', PStr (lit ''active'')),
        (lit ''ideal_companies'', PList []), (lit ''h1b_sponsorship'', PBool False),
        (lit ''yoe_min'', PInt (- 2)), (lit ''equity_min'', PFloat (1 / 2)),
        (lit ''equity_max'', PFloat 0)]"
  by (simp add: embed_jobs_def setup_pinecone_index_def stub_ingestion_def prepare_vector_def
      create_job_text_def job_text_fields_def dict_get_def build_metadata_def batch_size_def
      satisfies_job_invariants_def lit_def strip_def isspace_def tag_at_def LT_def GT_def)

text \<open>
  C8, amended. The metadata of every vector sent to the index has exactly the eleven
  fields \<open>company_name\<close>, \<open>location\<close>, \<open>job_category\<close>, \<open>employment_type\<close>,
  \<open>work_location_type\<close>, \<open>status\<close>, \<open>ideal_companies\<close>, \<open>h1b_sponsorship\<close>, \<open>yoe_min\<close>,
  \<open>equity_min\<close> and \<open>equity_max\<close>, built from one of the jobs: \<open>h1b_sponsorship\<close> is a
  boolean, \<open>yoe_min\<close> an integer and the equity bounds floats, namely \<open>bool\<close>, \<open>int\<close> and
  \<open>float\<close> of the job's values (\<open>False\<close>, 0 and 0.0 when absent); the other fields are
  the job's values as they are. Nothing is checked, so the invariants hold of the
  metadata exactly when they hold of the converted values.
\<close>

theorem upserted_metadata:
  assumes "Upsert vs \<in> set (snd (embed_jobs env jobs))" and "v \<in> set vs"
  shows
    "\<exists>job \<in> set jobs. \<exists>y a b.
       py_int env (dict_get job (lit ''yoe_min'') (PInt 0)) = Inr y \<and>
       py_float env (dict_get job (lit ''equity_min'') (PFloat 0)) = Inr a \<and>
       py_float env (dict_get job (lit ''equity_max'') (PFloat 0)) = Inr b \<and>
       metadata v =
         [(lit ''company_name'', dict_get job (lit ''company_name'') (PStr [])),
          (lit ''location'', dict_get job (lit ''location'') (PStr [])),
          (lit ''job_category'', dict_get job (lit ''job_category'') (PStr [])),
          (lit ''employment_type'', dict_get job (lit ''employment_type'') (PStr [])),
          (lit ''work_location_type'', dict_get job (lit ''work_location_type'') (PStr [])),
          (lit ''status'', dict_get job (lit ''status'') (PStr (lit ''active''))),
          (lit ''ideal_companies'', dict_get job (lit ''idealCompanies'') (PList [])),
          (lit ''h1b_sponsorship'',
             PBool (py_bool (dict_get job (lit ''h1b_sponsorship'') (PBool False)))),
          (lit ''yoe_min'', PInt y),
          (lit ''equity_min'', PFloat a),
          (lit ''equity_max'', PFloat b)] \<and>
       (satisfies_job_invariants (metadata v) \<longleftrightarrow> 0 \<le> y \<and> a \<le> b)"
proof -
  from embed_jobs_vectors [OF assms] obtain job where
    job: "job \<in> set jobs" "prepare_vector env job = Inr v"
    by blast
  from build_metadata_shape [OF prepare_vector_metadata [OF job(2)]] obtain y a b where
    conv: "py_int env (dict_get job (lit ''yoe_min'') (PInt 0)) = Inr y"
      "py_float env (dict_get job (lit ''equity_min'') (PFloat 0)) = Inr a"
      "py_float env (dict_get job (lit ''equity_max'') (PFloat 0)) = Inr b"
    and md: "metadata v =
         [(lit ''company_name'', dict_get job (lit ''company_name'') (PStr [])),
          (lit ''location'', dict_get job (lit ''location'') (PStr [])),
          (lit ''job_category'', dict_get job (lit ''job_category'') (PStr [])),
          (lit ''employment_type'', dict_get job (lit ''employment_type'') (PStr [])),
          (lit ''work_location_type'', dict_get job (lit ''work_location_type'') (PStr [])),
          (lit ''status'', dict_get job (lit ''status'') (PStr (lit ''active''))),
          (lit ''ideal_companies'', dict_get job (lit ''idealCompanies'') (PList [])),
          (lit ''h1b_sponsorship'',
             PBool (py_bool (dict_get job (lit ''h1b_sponsorship'') (PBool False)))),
          (lit ''yoe_min'', PInt y),
          (lit ''equity_min'', PFloat a),
          (lit ''equity_max'', PFloat b)]"
    by blast
  have "satisfies_job_invariants (metadata v) \<longleftrightarrow> 0 \<le> y \<and> a \<le> b"
    unfolding md by (simp add: satisfies_job_invariants_def lit_def)
  with job(1) conv md show ?thesis
    by blast
qed

text \<open>A job with three years of experience and equity from 0.1 to 0.5.\<close>

theorem upserted_metadata_witness:
  "embed_jobs stub_ingestion
     [[lit ''job_id'' \<mapsto> PStr (lit ''j2''), lit ''yoe_min'' \<mapsto> PInt 3,
       lit ''equity_min'' \<mapsto> PFloat (1 / 10), lit ''equity_max'' \<mapsto> PFloat (1 / 2)]]
   = (None,
      [Upsert
         [\<lparr> vector_id = PStr (lit ''j2''), vector_values = 0,
             metadata =
               [(lit ''company_name'', PStr []), (lit ''location'', PStr []),
                (lit ''job_category'', PStr []), (lit ''employment_type'', PStr []),
                (lit ''work_location_type'', PStr []), (lit ''status'', PStr (lit ''active'')),
                (lit ''ideal_companies'', PList []), (lit ''h1b_sponsorship'', PBool False),
                (lit ''yoe_min'', PInt 3), (lit ''equity_min'', PFloat (1 / 10)),
                (lit ''equity_max'', PFloat (1 / 2))] \<rparr>]]) \<and>
   satisfies_job_invariants
     [(lit ''company_name'', PStr []), (lit ''location'', PStr []),
      (lit ''job_category'', PStr []), (lit ''employment_type'', PStr []),
      (lit ''work_location_type'', PStr []), (lit ''status'', PStr (lit ''active'')),
      (lit ''ideal_companies'', PList []), (lit ''h1b_sponsorship'', PBool False),
      (lit ''yoe_min'', PInt 3), (lit ''equity_min'', PFloat (1 / 10)),
      (lit ''equity_max'', PFloat (1 / 2))]"
proof -
  let ?job = "[lit ''job_id'' \<mapsto> PStr (lit ''j2''), lit ''yoe_min'' \<mapsto> PInt 3,
       lit ''equity_min'' \<mapsto> PFloat (1 / 10), lit ''equity_max'' \<mapsto> PFloat (1 / 2)]"
  let ?md = "[(lit ''company_name'', PStr []), (lit ''location'', PStr []),
      (lit ''job_category'', PStr []), (lit ''employment_type'', PStr []),
      (lit ''work_location_type'', PStr []), (lit ''status'', PStr (lit ''active'')),
      (lit ''ideal_companies'', PList []), (lit ''h1b_sponsorship'', PBool False),
      (lit ''yoe_min'', PInt 3), (lit ''equity_min'', PFloat (1 / 10)),
      (lit ''equity_max'', PFloat (1 / 2))]"
  let ?v = "\<lparr> vector_id = PStr (lit ''j2''), vector_values = 0 :: nat, metadata = ?md \<rparr>"
  have run: "embed_jobs stub_ingestion [?job] = (None, [Upsert [?v]])"
    by (simp add: embed_jobs_def setup_pinecone_index_def stub_ingestion_def prepare_vector_def
        create_job_text_def job_text_fields_def dict_get_def build_metadata_def batch_size_def
        lit_def strip_def isspace_def tag_at_def LT_def GT_def)
  then have "Upsert [?v] \<in> set (snd (embed_jobs stub_ingestion [?job]))" and "?v \<in> set [?v]"
    by simp_all
  from upserted_metadata [OF this] obtain y a b where
    "py_int stub_ingestion (dict_get ?job (lit ''yoe_min'') (PInt 0)) = Inr y"
    "py_float stub_ingestion (dict_get ?job (lit ''equity_min'') (PFloat 0)) = Inr a"
    "py_float stub_ingestion (dict_get ?job (lit ''equity_max'') (PFloat 0)) = Inr b"
    "satisfies_job_invariants ?md \<longleftrightarrow> 0 \<le> y \<and> a \<le> b"
    by auto
  moreover from this(1-3) have "y = 3" "a = 1 / 10" "b = 1 / 2"
    by (simp_all add: dict_get_def lit_def)
  ultimately have "satisfies_job_invariants ?md"
    by simp
  with run show ?thesis
    by simp
qed

end
